theory Spec2Isabelle
  imports Complex_Main "HOL-Library.Word"
begin

section \<open>The vendor interface as the wrapper sees it\<close>

text \<open>
  The wrapper \<^verbatim>\<open>bsec_py_wrapper.c\<close> marshals arguments for a closed vendor library.
  The library is a parameter of every definition below: its entry points are functions
  on an engine state of an arbitrary type \<open>'e\<close>, and nothing is assumed about them.
\<close>

text \<open>
  \<^verbatim>\<open>bsec_library_return_t\<close> is a C enumeration; the wrapper only compares it with
  \<^verbatim>\<open>BSEC_OK\<close> and casts it to \<^verbatim>\<open>int\<close>.
\<close>

type_synonym bsec_library_return_t = int

text \<open>
  Modelled from the spec: the header \<^verbatim>\<open>inc/bsec_datatypes.h\<close> that declares
  \<^verbatim>\<open>BSEC_OK\<close> is not among the sources. The spec says that initialisation
  "returns 0 on success, else the engine's non-zero status code", so the success status is 0.
\<close>

definition BSEC_OK :: bsec_library_return_t where
  "BSEC_OK = 0"

text \<open>
  The virtual (output) sensor identifiers that the wrapper names. An engine may use further
  identifiers of its enumeration; they are \<open>BSEC_OUTPUT_UNNAMED\<close>.
\<close>

datatype bsec_virtual_sensor_t =
    BSEC_OUTPUT_IAQ
  | BSEC_OUTPUT_STATIC_IAQ
  | BSEC_OUTPUT_CO2_EQUIVALENT
  | BSEC_OUTPUT_BREATH_VOC_EQUIVALENT
  | BSEC_OUTPUT_COMPENSATED_GAS
  | BSEC_OUTPUT_GAS_PERCENTAGE
  | BSEC_OUTPUT_STABILIZATION_STATUS
  | BSEC_OUTPUT_RUN_IN_STATUS
  | BSEC_OUTPUT_UNNAMED nat

datatype bsec_physical_sensor_t =
    BSEC_INPUT_TEMPERATURE
  | BSEC_INPUT_HUMIDITY
  | BSEC_INPUT_PRESSURE
  | BSEC_INPUT_GASRESISTOR

text \<open>
  Modelled from the spec: the sample rates are macros of the missing header; the spec's data
  model gives \<open>sample_rate\<close> as an enumeration with the three tiers LP, SCAN and ULP.
  \<open>BSEC_SAMPLE_RATE_UNNAMED\<close> is any other content of the field, such as the zero that the
  static array holds before the first call.
\<close>

datatype bsec_sample_rate_t =
    BSEC_SAMPLE_RATE_LP
  | BSEC_SAMPLE_RATE_SCAN
  | BSEC_SAMPLE_RATE_ULP
  | BSEC_SAMPLE_RATE_UNNAMED

record bsec_sensor_configuration_t =
  sensor_id :: bsec_virtual_sensor_t
  sample_rate :: bsec_sample_rate_t

subsection \<open>C \<^verbatim>\<open>float\<close>: IEEE 754 binary32\<close>

text \<open>
  A \<^verbatim>\<open>float\<close> is its three bit fields: one sign bit, eight bits of biased exponent and
  23 bits of fraction. Every value of the record is a binary32 datum.
\<close>

record float32 =
  sign_bit :: bool
  biased_exponent :: "8 word"
  fraction :: "23 word"

text \<open>
  A biased exponent of 255 is an infinity (fraction 0) or a NaN (any other fraction); every
  other datum is finite.
\<close>

definition is_finite :: "float32 \<Rightarrow> bool" where
  "is_finite x \<longleftrightarrow> biased_exponent x \<noteq> 255"

definition is_nan :: "float32 \<Rightarrow> bool" where
  "is_nan x \<longleftrightarrow> biased_exponent x = 255 \<and> fraction x \<noteq> 0"

definition infinity :: "bool \<Rightarrow> float32" where
  "infinity sg = \<lparr>sign_bit = sg, biased_exponent = 255, fraction = 0\<rparr>"

definition default_nan :: float32 where
  "default_nan = \<lparr>sign_bit = False, biased_exponent = 255, fraction = 2 ^ 22\<rparr>"

text \<open>
  The magnitude of a finite datum, as a natural number of units of \<^verbatim>\<open>2^-149\<close> (the smallest
  positive binary32 value): a biased exponent of 0 is a subnormal number with significand
  \<open>fraction\<close>, any other one a normal number with significand \<open>2 ^ 23 + fraction\<close>. The
  value of a finite datum is its magnitude with its sign.
\<close>

definition magnitude :: "float32 \<Rightarrow> nat" where
  "magnitude x =
     (if biased_exponent x = 0 then unat (fraction x)
      else (2 ^ 23 + unat (fraction x)) * 2 ^ (unat (biased_exponent x) - 1))"

definition valof :: "float32 \<Rightarrow> real" where
  "valof x = (if sign_bit x then - 1 else 1) * real (magnitude x) / 2 ^ 149"

text \<open>The number of bits of a natural number: 0 for 0, and \<open>k + 1\<close> from \<open>2 ^ k\<close> on.\<close>

fun bit_length :: "nat \<Rightarrow> nat" where
  "bit_length n = (if n = 0 then 0 else Suc (bit_length (n div 2)))"

declare bit_length.simps [simp del]

text \<open>
  The binary32 datum with sign \<open>sg\<close> and magnitude \<open>m * 2 ^ e\<close> units, for a significand
  \<open>m \<le> 2 ^ 24\<close> that is below \<open>2 ^ 23\<close> only when \<open>e = 0\<close>; the infinity when
  that magnitude is beyond the largest finite one.
\<close>

definition encode :: "bool \<Rightarrow> nat \<Rightarrow> nat \<Rightarrow> float32" where
  "encode sg m e =
     (if m < 2 ^ 23 then \<lparr>sign_bit = sg, biased_exponent = 0, fraction = word_of_nat m\<rparr>
      else
        let (m, e) = (if m = 2 ^ 24 then (2 ^ 23, e + 1) else (m, e))
        in if 254 < e + 1 then infinity sg
           else \<lparr>sign_bit = sg, biased_exponent = word_of_nat (e + 1),
                 fraction = word_of_nat (m - 2 ^ 23)\<rparr>)"

text \<open>
  Rounding to nearest, ties to even (the rounding of C arithmetic unless the program changes
  the mode, which the wrapper does not): \<open>N\<close> is an exact magnitude in units of
  \<^verbatim>\<open>2^-298\<close>. The \<open>q\<close> low bits of \<open>N\<close> do not fit: all but the leading 24 bits,
  and at least the 149 bits below the smallest subnormal.
\<close>

definition round_to_float32 :: "bool \<Rightarrow> nat \<Rightarrow> float32" where
  "round_to_float32 sg N =
     (let q = max (bit_length N - 24) 149;
          m = N div 2 ^ q;
          rest = N mod 2 ^ q;
          half = 2 ^ (q - 1);
          m = (if half < rest \<or> (rest = half \<and> odd m) then m + 1 else m)
      in encode sg m (q - 149))"

text \<open>A NaN with its quiet bit, the leading bit of the fraction, set.\<close>

definition quiet :: "float32 \<Rightarrow> float32" where
  "quiet x = x\<lparr>fraction := set_bit 22 (fraction x)\<rparr>"

text \<open>
  The C operator \<^verbatim>\<open>*\<close> on two \<^verbatim>\<open>float\<close> operands. A NaN operand comes back with its sign
  and payload, quieted (the first operand when both are NaNs). An infinity times a finite
  number other than zero, or times an infinity, is the infinity with the product of the
  signs. The exact product of two finite data has magnitude \<open>magnitude a * magnitude b\<close> in
  units of \<^verbatim>\<open>2^-298\<close>, and is rounded. An infinity times a zero is a NaN whose sign differs
  between processors, here \<open>default_nan\<close>; the wrapper's only product has the operand
  100.0f, where that case does not arise.
\<close>

definition fmul32 :: "float32 \<Rightarrow> float32 \<Rightarrow> float32" where
  "fmul32 a b =
     (if is_nan a then quiet a
      else if is_nan b then quiet b
      else if \<not> is_finite a \<or> \<not> is_finite b then
        (if (is_finite a \<and> magnitude a = 0) \<or> (is_finite b \<and> magnitude b = 0) then default_nan
         else infinity (sign_bit a \<noteq> sign_bit b))
      else round_to_float32 (sign_bit a \<noteq> sign_bit b) (magnitude a * magnitude b))"

text \<open>The \<^verbatim>\<open>float\<close> literals of the source: 100.0f, 25.0f, 400.0f and 0.5f.\<close>

definition float_100_0 :: float32 where
  "float_100_0 = \<lparr>sign_bit = False, biased_exponent = 133, fraction = 0x480000\<rparr>"

definition float_25_0 :: float32 where
  "float_25_0 = \<lparr>sign_bit = False, biased_exponent = 131, fraction = 0x480000\<rparr>"

definition float_400_0 :: float32 where
  "float_400_0 = \<lparr>sign_bit = False, biased_exponent = 135, fraction = 0x480000\<rparr>"

definition float_0_5 :: float32 where
  "float_0_5 = \<lparr>sign_bit = False, biased_exponent = 126, fraction = 0\<rparr>"

record bsec_input_t =
  in_sensor_id :: bsec_physical_sensor_t
  signal :: float32
  time_stamp :: "64 word"

record bsec_output_t =
  out_sensor_id :: bsec_virtual_sensor_t
  out_signal :: float32
  accuracy :: "8 word"

text \<open>
  The vendor library: the two things of its headers that the wrapper reads
  (\<^verbatim>\<open>BSEC_MAX_PHYSICAL_SENSOR\<close> and the configuration blob \<^verbatim>\<open>bsec_config_iaq\<close>), and
  its entry points. An entry point takes the arguments that the wrapper passes by value or
  through a pointer to constant data, the value of each in/out count on entry, and the engine
  state; it returns its status, what it wrote through the non-constant pointers, and the
  new engine state.
\<close>

record 'e bsec_library =
  BSEC_MAX_PHYSICAL_SENSOR :: "8 word"
  bsec_config_iaq :: "8 word list"
  bsec_init :: "'e \<Rightarrow> bsec_library_return_t \<times> 'e"
  bsec_set_configuration ::
    "8 word list \<Rightarrow> 32 word \<Rightarrow> 8 word list option \<Rightarrow> 32 word \<Rightarrow> 'e \<Rightarrow> bsec_library_return_t \<times> 'e"
  bsec_update_subscription ::
    "bsec_sensor_configuration_t list \<Rightarrow> 8 word \<Rightarrow> 8 word \<Rightarrow> 'e
      \<Rightarrow> (bsec_library_return_t \<times> bsec_sensor_configuration_t list \<times> 8 word) \<times> 'e"
  bsec_do_steps ::
    "bsec_input_t list \<Rightarrow> 8 word \<Rightarrow> 8 word \<Rightarrow> 'e
      \<Rightarrow> (bsec_library_return_t \<times> bsec_output_t list \<times> 8 word) \<times> 'e"

section \<open>What the wrapper does to the outside\<close>

text \<open>
  The lines the wrapper prints, one constructor for each \<^verbatim>\<open>printf\<close> of the source (lines
  20, 24, 26, 64, 67, 72, 94, 97, 102, 158 and 185, in this order), with the values that the
  line formats.
\<close>

datatype message =
    Msg_basic_init_successful
  | Msg_config_failed int
  | Msg_config_loaded
  | Msg_LP_result int
  | Msg_LP_success
  | Msg_LP_failed_trying_SCAN
  | Msg_SCAN_result int
  | Msg_SCAN_success
  | Msg_SCAN_failed_falling_back_to_ULP
  | Msg_BSEC_result int int
  | Msg_final_values float32 int float32 float32

text \<open>
  The calls into the library, each with the arguments passed and the status returned.
  For \<open>Call_bsec_update_subscription\<close> the arguments are the bundle the engine can read
  (the first \<open>n_requested_virtual_sensors\<close> entries of the static array), that count, the
  number of slots of the receiving array \<open>required_sensor_settings\<close>, and the value of
  \<open>n_required_sensor_settings\<close> on entry. For \<open>Call_bsec_do_steps\<close> they are the inputs,
  \<open>n_inputs\<close>, the number of slots of \<open>outputs\<close> and the value of \<open>n_outputs\<close> on entry;
  after the status come the elements of \<open>outputs\<close> that the engine wrote, from index 0 on,
  and the value it left in \<open>n_outputs\<close>.
\<close>

datatype engine_call =
    Call_bsec_init bsec_library_return_t
  | Call_bsec_set_configuration "8 word list" "32 word" "8 word list option" "32 word"
      bsec_library_return_t
  | Call_bsec_update_subscription "bsec_sensor_configuration_t list" "8 word" nat "8 word"
      bsec_library_return_t
  | Call_bsec_do_steps "bsec_input_t list" "8 word" nat "8 word"
      bsec_library_return_t "bsec_output_t list" "8 word"

datatype event = Stdout message | Engine engine_call

text \<open>
  The state that outlives a call: the engine's own state and the two static variables of
  the wrapper. The static array has eight elements.
\<close>

record 'e wrapper_state =
  engine :: 'e
  requested_virtual_sensors :: "bsec_sensor_configuration_t list"
  n_requested_virtual_sensors :: "8 word"

section \<open>\<^verbatim>\<open>py_bsec_init\<close>\<close>

definition set_sensor_id ::
  "nat \<Rightarrow> bsec_virtual_sensor_t \<Rightarrow> 'e wrapper_state \<Rightarrow> 'e wrapper_state" where
  "set_sensor_id i v s =
     s\<lparr>requested_virtual_sensors :=
         (requested_virtual_sensors s)[i := (requested_virtual_sensors s ! i)\<lparr>sensor_id := v\<rparr>]\<rparr>"

definition set_sample_rate ::
  "nat \<Rightarrow> bsec_sample_rate_t \<Rightarrow> 'e wrapper_state \<Rightarrow> 'e wrapper_state" where
  "set_sample_rate i r s =
     s\<lparr>requested_virtual_sensors :=
         (requested_virtual_sensors s)[i := (requested_virtual_sensors s ! i)\<lparr>sample_rate := r\<rparr>]\<rparr>"

text \<open>Lines 30 to 54: the eight identifiers, each with the LP rate, then the count.\<close>

definition request_all_at_LP :: "'e wrapper_state \<Rightarrow> 'e wrapper_state" where
  "request_all_at_LP s =
     (let s = set_sensor_id 0 BSEC_OUTPUT_IAQ s;
          s = set_sample_rate 0 BSEC_SAMPLE_RATE_LP s;
          s = set_sensor_id 1 BSEC_OUTPUT_STATIC_IAQ s;
          s = set_sample_rate 1 BSEC_SAMPLE_RATE_LP s;
          s = set_sensor_id 2 BSEC_OUTPUT_CO2_EQUIVALENT s;
          s = set_sample_rate 2 BSEC_SAMPLE_RATE_LP s;
          s = set_sensor_id 3 BSEC_OUTPUT_BREATH_VOC_EQUIVALENT s;
          s = set_sample_rate 3 BSEC_SAMPLE_RATE_LP s;
          s = set_sensor_id 4 BSEC_OUTPUT_COMPENSATED_GAS s;
          s = set_sample_rate 4 BSEC_SAMPLE_RATE_LP s;
          s = set_sensor_id 5 BSEC_OUTPUT_GAS_PERCENTAGE s;
          s = set_sample_rate 5 BSEC_SAMPLE_RATE_LP s;
          s = set_sensor_id 6 BSEC_OUTPUT_STABILIZATION_STATUS s;
          s = set_sample_rate 6 BSEC_SAMPLE_RATE_LP s;
          s = set_sensor_id 7 BSEC_OUTPUT_RUN_IN_STATUS s;
          s = set_sample_rate 7 BSEC_SAMPLE_RATE_LP s
      in s\<lparr>n_requested_virtual_sensors := 8\<rparr>)"

text \<open>Lines 73 to 88 and 103 to 110: the same rate written to each of the eight elements.\<close>

definition set_all_sample_rates ::
  "bsec_sample_rate_t \<Rightarrow> 'e wrapper_state \<Rightarrow> 'e wrapper_state" where
  "set_all_sample_rates r s =
     (let s = set_sample_rate 0 r s;
          s = set_sample_rate 1 r s;
          s = set_sample_rate 2 r s;
          s = set_sample_rate 3 r s;
          s = set_sample_rate 4 r s;
          s = set_sample_rate 5 r s;
          s = set_sample_rate 6 r s;
          s = set_sample_rate 7 r s
      in s)"

text \<open>
  The call \<^verbatim>\<open>bsec_update_subscription(requested_virtual_sensors,
  n_requested_virtual_sensors, required_sensor_settings, &n_required_sensor_settings)\<close>.
  The local array \<open>required_sensor_settings\<close> has \<open>BSEC_MAX_PHYSICAL_SENSOR\<close> slots and the
  wrapper never reads it, so what the engine writes there is dropped. The local count
  \<open>n_required_sensor_settings\<close> is passed by address: its value goes in, and the value the
  engine leaves there comes back.
\<close>

definition update_subscription ::
  "'e bsec_library \<Rightarrow> 8 word \<Rightarrow> 'e wrapper_state
     \<Rightarrow> (bsec_library_return_t \<times> 8 word) \<times> 'e wrapper_state \<times> event list" where
  "update_subscription lib n_required_sensor_settings s =
     (let bundle = take (unat (n_requested_virtual_sensors s)) (requested_virtual_sensors s);
          ((bsec_status, required_sensor_settings, n_required_sensor_settings'), e) =
             bsec_update_subscription lib bundle (n_requested_virtual_sensors s)
               n_required_sensor_settings (engine s)
      in ((bsec_status, n_required_sensor_settings'), s\<lparr>engine := e\<rparr>,
          [Engine (Call_bsec_update_subscription bundle (n_requested_virtual_sensors s)
             (unat (BSEC_MAX_PHYSICAL_SENSOR lib)) n_required_sensor_settings bsec_status)]))"

text \<open>Lines 29 to 115: the three attempts.\<close>

definition negotiate ::
  "'e bsec_library \<Rightarrow> 'e wrapper_state \<Rightarrow> int \<times> 'e wrapper_state \<times> event list" where
  "negotiate lib s =
     (let s = request_all_at_LP s;
          n_required_sensor_settings = BSEC_MAX_PHYSICAL_SENSOR lib;
          ((bsec_status, n_required_sensor_settings), s, tr1) =
             update_subscription lib n_required_sensor_settings s;
          tr = tr1 @ [Stdout (Msg_LP_result bsec_status)]
      in if bsec_status = BSEC_OK then (0, s, tr @ [Stdout Msg_LP_success])
         else
           let tr = tr @ [Stdout Msg_LP_failed_trying_SCAN];
               s = set_all_sample_rates BSEC_SAMPLE_RATE_SCAN s;
               ((bsec_status, n_required_sensor_settings), s, tr2) =
                  update_subscription lib n_required_sensor_settings s;
               tr = tr @ tr2 @ [Stdout (Msg_SCAN_result bsec_status)]
           in if bsec_status = BSEC_OK then (0, s, tr @ [Stdout Msg_SCAN_success])
              else
                let tr = tr @ [Stdout Msg_SCAN_failed_falling_back_to_ULP];
                    s = set_all_sample_rates BSEC_SAMPLE_RATE_ULP s;
                    ((bsec_status, n_required_sensor_settings), s, tr3) =
                       update_subscription lib n_required_sensor_settings s
                in (bsec_status, s, tr @ tr3))"

text \<open>
  \<^verbatim>\<open>py_bsec_init\<close>: the returned \<^verbatim>\<open>int\<close>, the state afterwards, and what it printed and
  called, in order.
\<close>

definition py_bsec_init ::
  "'e bsec_library \<Rightarrow> 'e wrapper_state \<Rightarrow> int \<times> 'e wrapper_state \<times> event list" where
  "py_bsec_init lib s =
     (let (bsec_status, e) = bsec_init lib (engine s);
          s = s\<lparr>engine := e\<rparr>;
          tr = [Engine (Call_bsec_init bsec_status)]
      in if bsec_status \<noteq> BSEC_OK then (bsec_status, s, tr)
         else
           let tr = tr @ [Stdout Msg_basic_init_successful];
               config_size = (word_of_nat (length (bsec_config_iaq lib)) :: 32 word);
               (bsec_status, e) =
                  bsec_set_configuration lib (bsec_config_iaq lib) config_size None 0 (engine s);
               s = s\<lparr>engine := e\<rparr>;
               tr = tr @ [Engine (Call_bsec_set_configuration (bsec_config_iaq lib) config_size
                                    None 0 bsec_status)];
               tr = (if bsec_status \<noteq> BSEC_OK then tr @ [Stdout (Msg_config_failed bsec_status)]
                     else tr @ [Stdout Msg_config_loaded]);
               (r, s, tr') = negotiate lib s
           in (r, s, tr @ tr'))"

section \<open>\<^verbatim>\<open>py_bsec_do_steps\<close>\<close>

text \<open>
  The four locations that the caller passes by address. They are taken to be four different
  locations, as they are for the host that calls with four variables of its own.
\<close>

record out_params =
  iaq :: float32
  iaq_accuracy :: int
  co2_equivalent :: float32
  breath_voc_equivalent :: float32

text \<open>
  The local array \<open>outputs\<close> has eight slots and starts indeterminate; \<open>outputs\<close> below is
  what the engine wrote, from index 0 on. C gives no meaning to a read beyond the array or
  of a slot that was never written: such a read is an error of the model.
\<close>

datatype error = Out_of_bounds nat | Indeterminate nat

definition read_output :: "bsec_output_t list \<Rightarrow> 8 word \<Rightarrow> error + bsec_output_t" where
  "read_output outputs i =
     (if 8 \<le> unat i then Inl (Out_of_bounds (unat i))
      else if length outputs \<le> unat i then Inl (Indeterminate (unat i))
      else Inr (outputs ! unat i))"

text \<open>Lines 171 to 182: the \<^verbatim>\<open>switch\<close> on the identifier of one output.\<close>

definition store_output :: "bsec_output_t \<Rightarrow> out_params \<Rightarrow> out_params" where
  "store_output out p =
     (case out_sensor_id out of
        BSEC_OUTPUT_IAQ \<Rightarrow> p\<lparr>iaq := out_signal out, iaq_accuracy := uint (accuracy out)\<rparr>
      | BSEC_OUTPUT_CO2_EQUIVALENT \<Rightarrow> p\<lparr>co2_equivalent := out_signal out\<rparr>
      | BSEC_OUTPUT_BREATH_VOC_EQUIVALENT \<Rightarrow> p\<lparr>breath_voc_equivalent := out_signal out\<rparr>
      | _ \<Rightarrow> p)"

text \<open>Lines 170 to 183: the loop, with its \<^verbatim>\<open>uint8_t\<close> counter.\<close>

function copy_outputs ::
  "bsec_output_t list \<Rightarrow> 8 word \<Rightarrow> 8 word \<Rightarrow> out_params \<Rightarrow> error + out_params" where
  "copy_outputs outputs n_outputs i p =
     (if i < n_outputs then
        (case read_output outputs i of
           Inl err \<Rightarrow> Inl err
         | Inr out \<Rightarrow> copy_outputs outputs n_outputs (i + 1) (store_output out p))
      else Inr p)"
  by pat_completeness auto
termination
proof (relation "measure (\<lambda>(outputs, n_outputs, i, p). unat n_outputs - unat i)")
  show "wf (measure (\<lambda>(outputs, n_outputs, i, p). unat n_outputs - unat i))"
    by simp
next
  fix outputs :: "bsec_output_t list" and n_outputs i :: "8 word" and p :: out_params
    and out :: bsec_output_t
  assume "i < n_outputs"
  then have "unat (i + 1) = Suc (unat i)" and "unat i < unat n_outputs"
    by unat_arith+
  then show "((outputs, n_outputs, i + 1, store_output out p), (outputs, n_outputs, i, p))
      \<in> measure (\<lambda>(outputs, n_outputs, i, p). unat n_outputs - unat i)"
    by simp
qed

declare copy_outputs.simps [simp del]

text \<open>
  \<^verbatim>\<open>py_bsec_do_steps\<close>: the returned \<^verbatim>\<open>int\<close> and the contents of the four locations
  afterwards (or the error), the state afterwards, and what it printed and called.
\<close>

definition py_bsec_do_steps ::
  "'e bsec_library \<Rightarrow> float32 \<Rightarrow> float32 \<Rightarrow> float32 \<Rightarrow> float32 \<Rightarrow> 64 word \<Rightarrow> out_params
     \<Rightarrow> 'e wrapper_state \<Rightarrow> (error + int \<times> out_params) \<times> 'e wrapper_state \<times> event list" where
  "py_bsec_do_steps lib temperature humidity pressure gas_resistance timestamp_ns p s =
     (let n_inputs = 4;
          inputs =
            [\<lparr>in_sensor_id = BSEC_INPUT_TEMPERATURE, signal = temperature,
              time_stamp = timestamp_ns\<rparr>,
             \<lparr>in_sensor_id = BSEC_INPUT_HUMIDITY, signal = humidity,
              time_stamp = timestamp_ns\<rparr>,
             \<lparr>in_sensor_id = BSEC_INPUT_PRESSURE, signal = fmul32 pressure float_100_0,
              time_stamp = timestamp_ns\<rparr>,
             \<lparr>in_sensor_id = BSEC_INPUT_GASRESISTOR, signal = gas_resistance,
              time_stamp = timestamp_ns\<rparr>];
          n_outputs = 8;
          ((bsec_status, outputs, n_outputs'), e) =
             bsec_do_steps lib inputs n_inputs n_outputs (engine s);
          s = s\<lparr>engine := e\<rparr>;
          tr = [Engine (Call_bsec_do_steps inputs n_inputs 8 n_outputs bsec_status outputs
                          n_outputs'),
                Stdout (Msg_BSEC_result bsec_status (uint n_outputs'))]
      in if bsec_status \<noteq> BSEC_OK then (Inr (bsec_status, p), s, tr)
         else
           let p = p\<lparr>iaq := float_25_0, iaq_accuracy := 0, co2_equivalent := float_400_0,
                     breath_voc_equivalent := float_0_5\<rparr>
           in case copy_outputs outputs n_outputs' 0 p of
                Inl err \<Rightarrow> (Inl err, s, tr)
              | Inr p \<Rightarrow>
                  (Inr (0, p), s,
                   tr @ [Stdout (Msg_final_values (iaq p) (iaq_accuracy p) (co2_equivalent p)
                                   (breath_voc_equivalent p))]))"

section \<open>Observing a run\<close>

text \<open>The four inputs that lines 133 to 150 build, as a list.\<close>

abbreviation (input) marshalled ::
  "float32 \<Rightarrow> float32 \<Rightarrow> float32 \<Rightarrow> float32 \<Rightarrow> 64 word \<Rightarrow> bsec_input_t list" where
  "marshalled temperature humidity pressure gas_resistance timestamp_ns \<equiv>
     [\<lparr>in_sensor_id = BSEC_INPUT_TEMPERATURE, signal = temperature, time_stamp = timestamp_ns\<rparr>,
      \<lparr>in_sensor_id = BSEC_INPUT_HUMIDITY, signal = humidity, time_stamp = timestamp_ns\<rparr>,
      \<lparr>in_sensor_id = BSEC_INPUT_PRESSURE, signal = fmul32 pressure float_100_0,
        time_stamp = timestamp_ns\<rparr>,
      \<lparr>in_sensor_id = BSEC_INPUT_GASRESISTOR, signal = gas_resistance,
        time_stamp = timestamp_ns\<rparr>]"

text \<open>The eight requests of lines 30 to 52, all at the rate \<open>r\<close>.\<close>

definition full_bundle :: "bsec_sample_rate_t \<Rightarrow> bsec_sensor_configuration_t list" where
  "full_bundle r = map (\<lambda>v. \<lparr>sensor_id = v, sample_rate = r\<rparr>)
     [BSEC_OUTPUT_IAQ, BSEC_OUTPUT_STATIC_IAQ, BSEC_OUTPUT_CO2_EQUIVALENT,
      BSEC_OUTPUT_BREATH_VOC_EQUIVALENT, BSEC_OUTPUT_COMPENSATED_GAS, BSEC_OUTPUT_GAS_PERCENTAGE,
      BSEC_OUTPUT_STABILIZATION_STATUS, BSEC_OUTPUT_RUN_IN_STATUS]"

text \<open>
  The calls of \<^verbatim>\<open>bsec_update_subscription\<close> in a run, in order: the bundle, its count, the
  slots of the receiving array, the count passed for it, and the status returned.
\<close>

fun subscription_calls ::
  "event list \<Rightarrow> (bsec_sensor_configuration_t list \<times> 8 word \<times> nat \<times> 8 word \<times> int) list" where
  "subscription_calls [] = []"
| "subscription_calls (Engine (Call_bsec_update_subscription bundle n slots cnt st) # evs) =
     (bundle, n, slots, cnt, st) # subscription_calls evs"
| "subscription_calls (ev # evs) = subscription_calls evs"

text \<open>For each of those calls, the sample rates of its bundle and the status returned.\<close>

definition tiers_tried :: "event list \<Rightarrow> (bsec_sample_rate_t list \<times> int) list" where
  "tiers_tried tr = map (\<lambda>(bundle, n, slots, cnt, st). (map sample_rate bundle, st)) (subscription_calls tr)"


text \<open>The inputs handed to the engine at each call of \<^verbatim>\<open>bsec_do_steps\<close> in a run.\<close>

fun steps_inputs :: "event list \<Rightarrow> bsec_input_t list list" where
  "steps_inputs [] = []"
| "steps_inputs (Engine (Call_bsec_do_steps inputs n_inputs slots n_outputs st outputs n_out) # evs) =
     inputs # steps_inputs evs"
| "steps_inputs (ev # evs) = steps_inputs evs"

text \<open>
  The counts at each of those calls: \<open>n_inputs\<close>, the slots of \<open>outputs\<close>, and
  \<open>n_outputs\<close> on entry.
\<close>

fun steps_counts :: "event list \<Rightarrow> (8 word \<times> nat \<times> 8 word) list" where
  "steps_counts [] = []"
| "steps_counts (Engine (Call_bsec_do_steps inputs n_inputs slots n_outputs st outputs n_out) # evs) =
     (n_inputs, slots, n_outputs) # steps_counts evs"
| "steps_counts (ev # evs) = steps_counts evs"

text \<open>The last output with the identifier \<open>v\<close> in a bundle of outputs, if there is one.\<close>

definition last_output :: "bsec_virtual_sensor_t \<Rightarrow> bsec_output_t list \<Rightarrow> bsec_output_t option" where
  "last_output v outs =
     (let matching = filter (\<lambda>out. out_sensor_id out = v) outs
      in if matching = [] then None else Some (last matching))"

section \<open>Engines to run the wrapper on\<close>

text \<open>The wrapper's statics when the program is loaded (lines 10 and 11).\<close>

definition initial_state :: "'e \<Rightarrow> 'e wrapper_state" where
  "initial_state e =
     \<lparr>engine = e,
      requested_virtual_sensors =
        replicate 8 \<lparr>sensor_id = BSEC_OUTPUT_UNNAMED 0, sample_rate = BSEC_SAMPLE_RATE_UNNAMED\<rparr>,
      n_requested_virtual_sensors = 1\<rparr>"

text \<open>
  An engine that answers its calls from a script of status codes, one for each call, and
  writes nothing to the arrays it is given. When it rejects a subscription it stores 0 in
  \<open>n_required_sensor_settings\<close>, the number of settings it returned; when it accepts one
  it leaves that count as it found it.
\<close>

definition next_status :: "int list \<Rightarrow> int \<times> int list" where
  "next_status script = (case script of [] \<Rightarrow> (0, []) | st # rest \<Rightarrow> (st, rest))"

definition scripted_engine :: "(int list) bsec_library" where
  "scripted_engine =
     \<lparr>BSEC_MAX_PHYSICAL_SENSOR = 8,
      bsec_config_iaq = [],
      bsec_init = next_status,
      bsec_set_configuration = (\<lambda>blob size work n. next_status),
      bsec_update_subscription = (\<lambda>bundle n cnt script.
         let (st, rest) = next_status script
         in ((st, [], if st = 0 then cnt else 0), rest)),
      bsec_do_steps = (\<lambda>inputs n_inputs n_outputs script.
         let (st, rest) = next_status script in ((st, [], 0), rest))\<rparr>"

text \<open>
  An engine whose \<^verbatim>\<open>bsec_do_steps\<close> always gives the same answer: a status, the outputs it
  writes and the count it leaves in \<open>n_outputs\<close>.
\<close>

definition answering :: "int \<times> bsec_output_t list \<times> 8 word \<Rightarrow> unit bsec_library" where
  "answering answer =
     \<lparr>BSEC_MAX_PHYSICAL_SENSOR = 8,
      bsec_config_iaq = [],
      bsec_init = (\<lambda>e. (0, e)),
      bsec_set_configuration = (\<lambda>blob size work n e. (0, e)),
      bsec_update_subscription = (\<lambda>bundle n cnt e. ((0, [], cnt), e)),
      bsec_do_steps = (\<lambda>inputs n_inputs n_outputs e. (answer, e))\<rparr>"

text \<open>
  An engine that keeps, as its state, the inputs of every \<^verbatim>\<open>bsec_do_steps\<close> call it has
  received, and answers each with a status, the outputs it writes and the count it leaves
  in \<open>n_outputs\<close>.
\<close>

definition recording ::
  "int \<times> bsec_output_t list \<times> 8 word \<Rightarrow> (bsec_input_t list list) bsec_library" where
  "recording answer =
     \<lparr>BSEC_MAX_PHYSICAL_SENSOR = 8,
      bsec_config_iaq = [],
      bsec_init = (\<lambda>e. (0, e)),
      bsec_set_configuration = (\<lambda>blob size work n e. (0, e)),
      bsec_update_subscription = (\<lambda>bundle n cnt e. ((0, [], cnt), e)),
      bsec_do_steps = (\<lambda>inputs n_inputs n_outputs e. (answer, e @ [inputs]))\<rparr>"

text \<open>
  Binary32 data for the runs: 0.1f, 10.0f, 22.5f, 42.0f, 45.0f, 1013.25f, 50000.0f and
  101325.0f; and four values that a caller may leave in its four locations.
\<close>

definition float_0_1 :: float32 where
  "float_0_1 = \<lparr>sign_bit = False, biased_exponent = 123, fraction = 0x4CCCCD\<rparr>"

definition float_10_0 :: float32 where
  "float_10_0 = \<lparr>sign_bit = False, biased_exponent = 130, fraction = 0x200000\<rparr>"

definition float_22_5 :: float32 where
  "float_22_5 = \<lparr>sign_bit = False, biased_exponent = 131, fraction = 0x340000\<rparr>"

definition float_42_0 :: float32 where
  "float_42_0 = \<lparr>sign_bit = False, biased_exponent = 132, fraction = 0x280000\<rparr>"

definition float_45_0 :: float32 where
  "float_45_0 = \<lparr>sign_bit = False, biased_exponent = 132, fraction = 0x340000\<rparr>"

definition float_1013_25 :: float32 where
  "float_1013_25 = \<lparr>sign_bit = False, biased_exponent = 136, fraction = 0x7D5000\<rparr>"

definition float_50000_0 :: float32 where
  "float_50000_0 = \<lparr>sign_bit = False, biased_exponent = 142, fraction = 0x435000\<rparr>"

definition float_101325_0 :: float32 where
  "float_101325_0 = \<lparr>sign_bit = False, biased_exponent = 143, fraction = 0x45E680\<rparr>"

definition sentinels :: out_params where
  "sentinels = \<lparr>iaq = default_nan, iaq_accuracy = - 1, co2_equivalent = default_nan,
                 breath_voc_equivalent = default_nan\<rparr>"

text \<open>Four outputs of which a count of 3 takes the first three.\<close>

definition four_outputs :: "bsec_output_t list" where
  "four_outputs =
     [\<lparr>out_sensor_id = BSEC_OUTPUT_IAQ, out_signal = float_42_0, accuracy = 3\<rparr>,
      \<lparr>out_sensor_id = BSEC_OUTPUT_BREATH_VOC_EQUIVALENT, out_signal = float_10_0, accuracy = 0\<rparr>,
      \<lparr>out_sensor_id = BSEC_OUTPUT_IAQ, out_signal = float_22_5, accuracy = 1\<rparr>,
      \<lparr>out_sensor_id = BSEC_OUTPUT_CO2_EQUIVALENT, out_signal = float_45_0, accuracy = 0\<rparr>]"

section \<open>Properties of \<^verbatim>\<open>py_bsec_init\<close>\<close>

lemma length8_cases:
  "length xs = 8 \<Longrightarrow> \<exists>a b c d e f g h. xs = [a, b, c, d, e, f, g, h]"
  by (auto simp: length_Suc_conv eval_nat_numeral)

lemma request_all_at_LP_array:
  assumes "length (requested_virtual_sensors s) = 8"
  shows "request_all_at_LP s = s\<lparr>requested_virtual_sensors := full_bundle BSEC_SAMPLE_RATE_LP, n_requested_virtual_sensors := 8\<rparr>"
proof -
  obtain a b c d e f g h where "requested_virtual_sensors s = [a, b, c, d, e, f, g, h]"
    using length8_cases [OF assms] by blast
  then show ?thesis
    by (simp add: request_all_at_LP_def set_sensor_id_def set_sample_rate_def full_bundle_def)
qed

lemma set_all_sample_rates_bundle:
  assumes "requested_virtual_sensors s = full_bundle r0"
  shows "set_all_sample_rates r s = s\<lparr>requested_virtual_sensors := full_bundle r\<rparr>"
  using assms by (simp add: set_all_sample_rates_def set_sample_rate_def full_bundle_def)

lemma update_subscription_full:
  assumes "requested_virtual_sensors s = full_bundle r" "n_requested_virtual_sensors s = 8"
    and "bsec_update_subscription lib (full_bundle r) 8 c (engine s) = ((st, q, c'), e)"
  shows "update_subscription lib c s =
     ((st, c'), s\<lparr>engine := e\<rparr>,
      [Engine (Call_bsec_update_subscription (full_bundle r) 8 (unat (BSEC_MAX_PHYSICAL_SENSOR lib)) c st)])"
proof -
  have "take (unat (8 :: 8 word)) (full_bundle r) = full_bundle r"
    by (simp add: full_bundle_def)
  with assms show ?thesis
    by (simp add: update_subscription_def)
qed

lemma negotiate_LP:
  assumes len: "length (requested_virtual_sensors s) = 8"
    and r1: "bsec_update_subscription lib (full_bundle BSEC_SAMPLE_RATE_LP) 8
               (BSEC_MAX_PHYSICAL_SENSOR lib) (engine s) = ((BSEC_OK, q1, c1), e1)"
  shows "negotiate lib s =
     (0, \<lparr>engine = e1, requested_virtual_sensors = full_bundle BSEC_SAMPLE_RATE_LP,
          n_requested_virtual_sensors = 8\<rparr>,
      [Engine (Call_bsec_update_subscription (full_bundle BSEC_SAMPLE_RATE_LP) 8
         (unat (BSEC_MAX_PHYSICAL_SENSOR lib)) (BSEC_MAX_PHYSICAL_SENSOR lib) BSEC_OK),
       Stdout (Msg_LP_result BSEC_OK), Stdout Msg_LP_success])"
proof -
  let ?s1 = "request_all_at_LP s"
  have s1: "?s1 = s\<lparr>requested_virtual_sensors := full_bundle BSEC_SAMPLE_RATE_LP,
                      n_requested_virtual_sensors := 8\<rparr>"
    by (rule request_all_at_LP_array [OF len])
  have u1: "update_subscription lib (BSEC_MAX_PHYSICAL_SENSOR lib) ?s1 =
     ((BSEC_OK, c1), ?s1\<lparr>engine := e1\<rparr>,
      [Engine (Call_bsec_update_subscription (full_bundle BSEC_SAMPLE_RATE_LP) 8
         (unat (BSEC_MAX_PHYSICAL_SENSOR lib)) (BSEC_MAX_PHYSICAL_SENSOR lib) BSEC_OK)])"
    by (rule update_subscription_full [where q = q1]) (simp_all add: s1 r1)
  show ?thesis
    unfolding negotiate_def Let_def u1 by (simp add: s1)
qed

lemma negotiate_SCAN:
  assumes len: "length (requested_virtual_sensors s) = 8"
    and r1: "bsec_update_subscription lib (full_bundle BSEC_SAMPLE_RATE_LP) 8
               (BSEC_MAX_PHYSICAL_SENSOR lib) (engine s) = ((st1, q1, c1), e1)"
    and f1: "st1 \<noteq> BSEC_OK"
    and r2: "bsec_update_subscription lib (full_bundle BSEC_SAMPLE_RATE_SCAN) 8 c1 e1 =
               ((BSEC_OK, q2, c2), e2)"
  shows "negotiate lib s =
     (0, \<lparr>engine = e2, requested_virtual_sensors = full_bundle BSEC_SAMPLE_RATE_SCAN,
          n_requested_virtual_sensors = 8\<rparr>,
      [Engine (Call_bsec_update_subscription (full_bundle BSEC_SAMPLE_RATE_LP) 8
         (unat (BSEC_MAX_PHYSICAL_SENSOR lib)) (BSEC_MAX_PHYSICAL_SENSOR lib) st1),
       Stdout (Msg_LP_result st1), Stdout Msg_LP_failed_trying_SCAN,
       Engine (Call_bsec_update_subscription (full_bundle BSEC_SAMPLE_RATE_SCAN) 8
         (unat (BSEC_MAX_PHYSICAL_SENSOR lib)) c1 BSEC_OK),
       Stdout (Msg_SCAN_result BSEC_OK), Stdout Msg_SCAN_success])"
proof -
  let ?s1 = "request_all_at_LP s"
  have s1: "?s1 = s\<lparr>requested_virtual_sensors := full_bundle BSEC_SAMPLE_RATE_LP,
                      n_requested_virtual_sensors := 8\<rparr>"
    by (rule request_all_at_LP_array [OF len])
  have u1: "update_subscription lib (BSEC_MAX_PHYSICAL_SENSOR lib) ?s1 =
     ((st1, c1), ?s1\<lparr>engine := e1\<rparr>,
      [Engine (Call_bsec_update_subscription (full_bundle BSEC_SAMPLE_RATE_LP) 8
         (unat (BSEC_MAX_PHYSICAL_SENSOR lib)) (BSEC_MAX_PHYSICAL_SENSOR lib) st1)])"
    by (rule update_subscription_full [where q = q1]) (simp_all add: s1 r1)
  let ?s2 = "set_all_sample_rates BSEC_SAMPLE_RATE_SCAN (?s1\<lparr>engine := e1\<rparr>)"
  have s2: "?s2 = ?s1\<lparr>engine := e1, requested_virtual_sensors := full_bundle BSEC_SAMPLE_RATE_SCAN\<rparr>"
    by (simp add: s1 set_all_sample_rates_bundle [where ?r0.0 = BSEC_SAMPLE_RATE_LP])
  have u2: "update_subscription lib c1 ?s2 =
     ((BSEC_OK, c2), ?s2\<lparr>engine := e2\<rparr>,
      [Engine (Call_bsec_update_subscription (full_bundle BSEC_SAMPLE_RATE_SCAN) 8
         (unat (BSEC_MAX_PHYSICAL_SENSOR lib)) c1 BSEC_OK)])"
    by (rule update_subscription_full [where q = q2]) (use s2 in \<open>simp_all add: s1 r2\<close>)
  show ?thesis
    unfolding negotiate_def Let_def u1 prod.case u2 using f1 s2 by (simp add: s1)
qed

lemma negotiate_ULP:
  assumes len: "length (requested_virtual_sensors s) = 8"
    and r1: "bsec_update_subscription lib (full_bundle BSEC_SAMPLE_RATE_LP) 8
               (BSEC_MAX_PHYSICAL_SENSOR lib) (engine s) = ((st1, q1, c1), e1)"
    and f1: "st1 \<noteq> BSEC_OK"
    and r2: "bsec_update_subscription lib (full_bundle BSEC_SAMPLE_RATE_SCAN) 8 c1 e1 =
               ((st2, q2, c2), e2)"
    and f2: "st2 \<noteq> BSEC_OK"
    and r3: "bsec_update_subscription lib (full_bundle BSEC_SAMPLE_RATE_ULP) 8 c2 e2 =
               ((st3, q3, c3), e3)"
  shows "negotiate lib s =
     (st3, \<lparr>engine = e3, requested_virtual_sensors = full_bundle BSEC_SAMPLE_RATE_ULP,
          n_requested_virtual_sensors = 8\<rparr>,
      [Engine (Call_bsec_update_subscription (full_bundle BSEC_SAMPLE_RATE_LP) 8
         (unat (BSEC_MAX_PHYSICAL_SENSOR lib)) (BSEC_MAX_PHYSICAL_SENSOR lib) st1),
       Stdout (Msg_LP_result st1), Stdout Msg_LP_failed_trying_SCAN,
       Engine (Call_bsec_update_subscription (full_bundle BSEC_SAMPLE_RATE_SCAN) 8
         (unat (BSEC_MAX_PHYSICAL_SENSOR lib)) c1 st2),
       Stdout (Msg_SCAN_result st2), Stdout Msg_SCAN_failed_falling_back_to_ULP,
       Engine (Call_bsec_update_subscription (full_bundle BSEC_SAMPLE_RATE_ULP) 8
         (unat (BSEC_MAX_PHYSICAL_SENSOR lib)) c2 st3)])"
proof -
  let ?s1 = "request_all_at_LP s"
  have s1: "?s1 = s\<lparr>requested_virtual_sensors := full_bundle BSEC_SAMPLE_RATE_LP,
                      n_requested_virtual_sensors := 8\<rparr>"
    by (rule request_all_at_LP_array [OF len])
  have u1: "update_subscription lib (BSEC_MAX_PHYSICAL_SENSOR lib) ?s1 =
     ((st1, c1), ?s1\<lparr>engine := e1\<rparr>,
      [Engine (Call_bsec_update_subscription (full_bundle BSEC_SAMPLE_RATE_LP) 8
         (unat (BSEC_MAX_PHYSICAL_SENSOR lib)) (BSEC_MAX_PHYSICAL_SENSOR lib) st1)])"
    by (rule update_subscription_full [where q = q1]) (simp_all add: s1 r1)
  let ?s2 = "set_all_sample_rates BSEC_SAMPLE_RATE_SCAN (?s1\<lparr>engine := e1\<rparr>)"
  have s2: "?s2 = ?s1\<lparr>engine := e1, requested_virtual_sensors := full_bundle BSEC_SAMPLE_RATE_SCAN\<rparr>"
    by (simp add: s1 set_all_sample_rates_bundle [where ?r0.0 = BSEC_SAMPLE_RATE_LP])
  have u2: "update_subscription lib c1 ?s2 =
     ((st2, c2), ?s2\<lparr>engine := e2\<rparr>,
      [Engine (Call_bsec_update_subscription (full_bundle BSEC_SAMPLE_RATE_SCAN) 8
         (unat (BSEC_MAX_PHYSICAL_SENSOR lib)) c1 st2)])"
    by (rule update_subscription_full [where q = q2]) (use s2 in \<open>simp_all add: s1 r2\<close>)
  let ?s3 = "set_all_sample_rates BSEC_SAMPLE_RATE_ULP (?s2\<lparr>engine := e2\<rparr>)"
  have s3: "?s3 = ?s2\<lparr>engine := e2, requested_virtual_sensors := full_bundle BSEC_SAMPLE_RATE_ULP\<rparr>"
    using s2 by (simp add: s1 set_all_sample_rates_bundle [where ?r0.0 = BSEC_SAMPLE_RATE_SCAN])
  have u3: "update_subscription lib c2 ?s3 =
     ((st3, c3), ?s3\<lparr>engine := e3\<rparr>,
      [Engine (Call_bsec_update_subscription (full_bundle BSEC_SAMPLE_RATE_ULP) 8
         (unat (BSEC_MAX_PHYSICAL_SENSOR lib)) c2 st3)])"
    by (rule update_subscription_full [where q = q3]) (use s3 s2 in \<open>simp_all add: s1 r3\<close>)
  show ?thesis
    unfolding negotiate_def Let_def u1 prod.case u2 u3 using f1 f2 s3 s2 by (simp add: s1)
qed

lemma subscription_calls_append:
  "subscription_calls (xs @ ys) = subscription_calls xs @ subscription_calls ys"
  by (induction xs rule: subscription_calls.induct) simp_all

lemma py_bsec_init_fail:
  assumes "bsec_init lib (engine s) = (st, e)" "st \<noteq> BSEC_OK"
  shows "py_bsec_init lib s = (st, s\<lparr>engine := e\<rparr>, [Engine (Call_bsec_init st)])"
  using assms by (simp add: py_bsec_init_def)

lemma py_bsec_init_ok:
  assumes "bsec_init lib (engine s) = (BSEC_OK, e0)"
    and "bsec_set_configuration lib (bsec_config_iaq lib)
           (word_of_nat (length (bsec_config_iaq lib))) None 0 e0 = (stc, ec)"
    and "negotiate lib (s\<lparr>engine := ec\<rparr>) = (r, s', tr')"
  shows "py_bsec_init lib s =
     (r, s', [Engine (Call_bsec_init BSEC_OK), Stdout Msg_basic_init_successful,
              Engine (Call_bsec_set_configuration (bsec_config_iaq lib)
                (word_of_nat (length (bsec_config_iaq lib))) None 0 stc),
              Stdout (if stc \<noteq> BSEC_OK then Msg_config_failed stc else Msg_config_loaded)] @ tr')"
  using assms by (simp add: py_bsec_init_def)


lemma py_bsec_init_run:
  assumes len: "length (requested_virtual_sensors s) = 8"
    and i: "bsec_init lib (engine s) = (BSEC_OK, e0)"
    and c: "bsec_set_configuration lib (bsec_config_iaq lib)
              (word_of_nat (length (bsec_config_iaq lib))) None 0 e0 = (stc, ec)"
    and r1: "bsec_update_subscription lib (full_bundle BSEC_SAMPLE_RATE_LP) 8
               (BSEC_MAX_PHYSICAL_SENSOR lib) ec = ((st1, q1, c1), e1)"
    and r2: "bsec_update_subscription lib (full_bundle BSEC_SAMPLE_RATE_SCAN) 8 c1 e1 =
               ((st2, q2, c2), e2)"
    and r3: "bsec_update_subscription lib (full_bundle BSEC_SAMPLE_RATE_ULP) 8 c2 e2 =
               ((st3, q3, c3), e3)"
  shows "py_bsec_init lib s =
     (if st1 = BSEC_OK then
        (0, \<lparr>engine = e1, requested_virtual_sensors = full_bundle BSEC_SAMPLE_RATE_LP,
             n_requested_virtual_sensors = 8\<rparr>,
         [Engine (Call_bsec_init BSEC_OK), Stdout Msg_basic_init_successful,
          Engine (Call_bsec_set_configuration (bsec_config_iaq lib)
            (word_of_nat (length (bsec_config_iaq lib))) None 0 stc),
          Stdout (if stc \<noteq> BSEC_OK then Msg_config_failed stc else Msg_config_loaded),
          Engine (Call_bsec_update_subscription (full_bundle BSEC_SAMPLE_RATE_LP) 8
            (unat (BSEC_MAX_PHYSICAL_SENSOR lib)) (BSEC_MAX_PHYSICAL_SENSOR lib) st1),
          Stdout (Msg_LP_result st1), Stdout Msg_LP_success])
      else if st2 = BSEC_OK then
        (0, \<lparr>engine = e2, requested_virtual_sensors = full_bundle BSEC_SAMPLE_RATE_SCAN,
             n_requested_virtual_sensors = 8\<rparr>,
         [Engine (Call_bsec_init BSEC_OK), Stdout Msg_basic_init_successful,
          Engine (Call_bsec_set_configuration (bsec_config_iaq lib)
            (word_of_nat (length (bsec_config_iaq lib))) None 0 stc),
          Stdout (if stc \<noteq> BSEC_OK then Msg_config_failed stc else Msg_config_loaded),
          Engine (Call_bsec_update_subscription (full_bundle BSEC_SAMPLE_RATE_LP) 8
            (unat (BSEC_MAX_PHYSICAL_SENSOR lib)) (BSEC_MAX_PHYSICAL_SENSOR lib) st1),
          Stdout (Msg_LP_result st1), Stdout Msg_LP_failed_trying_SCAN,
          Engine (Call_bsec_update_subscription (full_bundle BSEC_SAMPLE_RATE_SCAN) 8
            (unat (BSEC_MAX_PHYSICAL_SENSOR lib)) c1 st2),
          Stdout (Msg_SCAN_result st2), Stdout Msg_SCAN_success])
      else
        (st3, \<lparr>engine = e3, requested_virtual_sensors = full_bundle BSEC_SAMPLE_RATE_ULP,
             n_requested_virtual_sensors = 8\<rparr>,
         [Engine (Call_bsec_init BSEC_OK), Stdout Msg_basic_init_successful,
          Engine (Call_bsec_set_configuration (bsec_config_iaq lib)
            (word_of_nat (length (bsec_config_iaq lib))) None 0 stc),
          Stdout (if stc \<noteq> BSEC_OK then Msg_config_failed stc else Msg_config_loaded),
          Engine (Call_bsec_update_subscription (full_bundle BSEC_SAMPLE_RATE_LP) 8
            (unat (BSEC_MAX_PHYSICAL_SENSOR lib)) (BSEC_MAX_PHYSICAL_SENSOR lib) st1),
          Stdout (Msg_LP_result st1), Stdout Msg_LP_failed_trying_SCAN,
          Engine (Call_bsec_update_subscription (full_bundle BSEC_SAMPLE_RATE_SCAN) 8
            (unat (BSEC_MAX_PHYSICAL_SENSOR lib)) c1 st2),
          Stdout (Msg_SCAN_result st2), Stdout Msg_SCAN_failed_falling_back_to_ULP,
          Engine (Call_bsec_update_subscription (full_bundle BSEC_SAMPLE_RATE_ULP) 8
            (unat (BSEC_MAX_PHYSICAL_SENSOR lib)) c2 st3)]))"
proof -
  let ?s = "s\<lparr>engine := ec\<rparr>"
  have len': "length (requested_virtual_sensors ?s) = 8"
    using len by simp
  have r1': "bsec_update_subscription lib (full_bundle BSEC_SAMPLE_RATE_LP) 8
               (BSEC_MAX_PHYSICAL_SENSOR lib) (engine ?s) = ((st1, q1, c1), e1)"
    using r1 by simp
  show ?thesis
  proof (cases "st1 = BSEC_OK")
    case True
    from negotiate_LP [OF len' r1' [unfolded True]] py_bsec_init_ok [OF i c] True
    show ?thesis by simp
  next
    case f1: False
    show ?thesis
    proof (cases "st2 = BSEC_OK")
      case True
      from negotiate_SCAN [OF len' r1' f1 r2 [unfolded True]] py_bsec_init_ok [OF i c] f1 True
      show ?thesis by simp
    next
      case f2: False
      from negotiate_ULP [OF len' r1' f1 r2 f2 r3] py_bsec_init_ok [OF i c] f1 f2
      show ?thesis by simp
    qed
  qed
qed

lemma replicate_8: "replicate 8 x = [x, x, x, x, x, x, x, x]"
  by (simp add: eval_nat_numeral)

lemmas run_defs = replicate_8 py_bsec_init_def negotiate_def update_subscription_def request_all_at_LP_def
  set_all_sample_rates_def set_sensor_id_def set_sample_rate_def initial_state_def
  scripted_engine_def next_status_def BSEC_OK_def Let_def

lemma run_LP_rejected:
  "py_bsec_init scripted_engine (initial_state [0, - 34, 10, 0]) =
     (0, \<lparr>engine = [], requested_virtual_sensors = full_bundle BSEC_SAMPLE_RATE_SCAN,
          n_requested_virtual_sensors = 8\<rparr>,
      [Engine (Call_bsec_init 0), Stdout Msg_basic_init_successful,
       Engine (Call_bsec_set_configuration [] 0 None 0 (- 34)), Stdout (Msg_config_failed (- 34)),
       Engine (Call_bsec_update_subscription (full_bundle BSEC_SAMPLE_RATE_LP) 8 8 8 10),
       Stdout (Msg_LP_result 10), Stdout Msg_LP_failed_trying_SCAN,
       Engine (Call_bsec_update_subscription (full_bundle BSEC_SAMPLE_RATE_SCAN) 8 8 0 0),
       Stdout (Msg_SCAN_result 0), Stdout Msg_SCAN_success])"
  by (simp add: run_defs full_bundle_def)

lemma run_all_rejected:
  "py_bsec_init scripted_engine (initial_state [0, 0, 10, - 2, - 13]) =
     (- 13, \<lparr>engine = [], requested_virtual_sensors = full_bundle BSEC_SAMPLE_RATE_ULP,
          n_requested_virtual_sensors = 8\<rparr>,
      [Engine (Call_bsec_init 0), Stdout Msg_basic_init_successful,
       Engine (Call_bsec_set_configuration [] 0 None 0 0), Stdout Msg_config_loaded,
       Engine (Call_bsec_update_subscription (full_bundle BSEC_SAMPLE_RATE_LP) 8 8 8 10),
       Stdout (Msg_LP_result 10), Stdout Msg_LP_failed_trying_SCAN,
       Engine (Call_bsec_update_subscription (full_bundle BSEC_SAMPLE_RATE_SCAN) 8 8 0 (- 2)),
       Stdout (Msg_SCAN_result (- 2)), Stdout Msg_SCAN_failed_falling_back_to_ULP,
       Engine (Call_bsec_update_subscription (full_bundle BSEC_SAMPLE_RATE_ULP) 8 8 0 (- 13))])"
  by (simp add: run_defs full_bundle_def)

lemma run_init_rejected:
  "py_bsec_init scripted_engine (initial_state [- 1, 0, 0]) =
     (- 1, initial_state [0, 0], [Engine (Call_bsec_init (- 1))])"
  by (simp add: run_defs)

lemma full_bundle_contents:
  "length (full_bundle tier) = 8"
  "map sensor_id (full_bundle tier) =
     [BSEC_OUTPUT_IAQ, BSEC_OUTPUT_STATIC_IAQ, BSEC_OUTPUT_CO2_EQUIVALENT,
      BSEC_OUTPUT_BREATH_VOC_EQUIVALENT, BSEC_OUTPUT_COMPENSATED_GAS,
      BSEC_OUTPUT_GAS_PERCENTAGE, BSEC_OUTPUT_STABILIZATION_STATUS,
      BSEC_OUTPUT_RUN_IN_STATUS]"
  "map sample_rate (full_bundle tier) = replicate 8 tier"
  by (simp_all add: full_bundle_def replicate_8)

lemmas answer_defs = scripted_engine_def next_status_def initial_state_def BSEC_OK_def

text \<open>
  Claim C1. Let the basic initialisation succeed, and let \<open>st1\<close>, \<open>st2\<close> and \<open>st3\<close> be the
  statuses with which the library answers the subscription update for the bundle at the LP
  rate, then (from the engine state and the count that call left) at the SCAN rate, then at
  the ULP rate. If \<open>st1\<close> is success, \<^verbatim>\<open>py_bsec_init\<close> returns 0, the engine is in the state
  the LP call left, and LP is the only attempt. If \<open>st1\<close> is a failure and \<open>st2\<close> success, it
  returns 0, the engine is in the state the SCAN call left, and the attempts are LP and SCAN.
  If both are failures, it returns \<open>st3\<close> (0 when that is success), the engine is in the
  state the ULP call left, and the attempts are LP, SCAN and ULP.
\<close>

theorem negotiation_short_circuits:
  assumes "length (requested_virtual_sensors s) = 8"
    and "bsec_init lib (engine s) = (BSEC_OK, e0)"
    and "bsec_set_configuration lib (bsec_config_iaq lib)
           (word_of_nat (length (bsec_config_iaq lib))) None 0 e0 = (stc, ec)"
    and "bsec_update_subscription lib (full_bundle BSEC_SAMPLE_RATE_LP) 8
           (BSEC_MAX_PHYSICAL_SENSOR lib) ec = ((st1, q1, c1), e1)"
    and "bsec_update_subscription lib (full_bundle BSEC_SAMPLE_RATE_SCAN) 8 c1 e1 =
           ((st2, q2, c2), e2)"
    and "bsec_update_subscription lib (full_bundle BSEC_SAMPLE_RATE_ULP) 8 c2 e2 =
           ((st3, q3, c3), e3)"
    and "py_bsec_init lib s = (r, s', tr)"
  shows "(st1 = BSEC_OK \<longrightarrow>
            r = 0 \<and> engine s' = e1
            \<and> tiers_tried tr = [(replicate 8 BSEC_SAMPLE_RATE_LP, st1)])
       \<and> (st1 \<noteq> BSEC_OK \<and> st2 = BSEC_OK \<longrightarrow>
            r = 0 \<and> engine s' = e2
            \<and> tiers_tried tr = [(replicate 8 BSEC_SAMPLE_RATE_LP, st1),
                                 (replicate 8 BSEC_SAMPLE_RATE_SCAN, st2)])
       \<and> (st1 \<noteq> BSEC_OK \<and> st2 \<noteq> BSEC_OK \<longrightarrow>
            r = st3 \<and> (st3 = BSEC_OK \<longrightarrow> r = 0) \<and> engine s' = e3
            \<and> tiers_tried tr = [(replicate 8 BSEC_SAMPLE_RATE_LP, st1),
                                 (replicate 8 BSEC_SAMPLE_RATE_SCAN, st2),
                                 (replicate 8 BSEC_SAMPLE_RATE_ULP, st3)])"
  using py_bsec_init_run [OF assms(1-6)] assms(7)
  by (auto simp: tiers_tried_def full_bundle_contents BSEC_OK_def split: if_splits)

theorem negotiation_short_circuits_witness:
  "length (requested_virtual_sensors (initial_state [0, - 34, 10, 0 :: int])) = 8
   \<and> bsec_init scripted_engine (engine (initial_state [0, - 34, 10, 0])) =
       (BSEC_OK, [- 34, 10, 0])
   \<and> bsec_set_configuration scripted_engine (bsec_config_iaq scripted_engine)
         (word_of_nat (length (bsec_config_iaq scripted_engine))) None 0 [- 34, 10, 0] =
       (- 34, [10, 0])
   \<and> bsec_update_subscription scripted_engine (full_bundle BSEC_SAMPLE_RATE_LP) 8
         (BSEC_MAX_PHYSICAL_SENSOR scripted_engine) [10, 0] = ((10, [], 0), [0])
   \<and> bsec_update_subscription scripted_engine (full_bundle BSEC_SAMPLE_RATE_SCAN) 8 0 [0] =
       ((BSEC_OK, [], 0), [])
   \<and> bsec_update_subscription scripted_engine (full_bundle BSEC_SAMPLE_RATE_ULP) 8 0 [] =
       ((0, [], 0), [])
   \<and> 10 \<noteq> BSEC_OK
   \<and> fst (py_bsec_init scripted_engine (initial_state [0, - 34, 10, 0])) = 0
   \<and> engine (fst (snd (py_bsec_init scripted_engine (initial_state [0, - 34, 10, 0])))) = []
   \<and> tiers_tried (snd (snd (py_bsec_init scripted_engine (initial_state [0, - 34, 10, 0])))) =
       [(replicate 8 BSEC_SAMPLE_RATE_LP, 10), (replicate 8 BSEC_SAMPLE_RATE_SCAN, BSEC_OK)]"
proof -
  have len: "length (requested_virtual_sensors (initial_state [0, - 34, 10, 0 :: int])) = 8"
    by (simp add: initial_state_def)
  have i: "bsec_init scripted_engine (engine (initial_state [0, - 34, 10, 0])) =
       (BSEC_OK, [- 34, 10, 0])"
    by (simp add: answer_defs)
  have c: "bsec_set_configuration scripted_engine (bsec_config_iaq scripted_engine)
         (word_of_nat (length (bsec_config_iaq scripted_engine))) None 0 [- 34, 10, 0] =
       (- 34, [10, 0])"
    by (simp add: answer_defs)
  have r1: "bsec_update_subscription scripted_engine (full_bundle BSEC_SAMPLE_RATE_LP) 8
         (BSEC_MAX_PHYSICAL_SENSOR scripted_engine) [10, 0] = ((10, [], 0), [0])"
    by (simp add: answer_defs)
  have r2: "bsec_update_subscription scripted_engine (full_bundle BSEC_SAMPLE_RATE_SCAN) 8 0 [0] =
       ((BSEC_OK, [], 0), [])"
    by (simp add: answer_defs)
  have r3: "bsec_update_subscription scripted_engine (full_bundle BSEC_SAMPLE_RATE_ULP) 8 0 [] =
       ((0, [], 0), [])"
    by (simp add: answer_defs)
  have f: "10 \<noteq> BSEC_OK" by (simp add: BSEC_OK_def)
  from negotiation_short_circuits [OF len i c r1 r2 r3 run_LP_rejected] f
  have "(0 :: int) = 0 \<and> engine \<lparr>engine = [] :: int list,
            requested_virtual_sensors = full_bundle BSEC_SAMPLE_RATE_SCAN,
            n_requested_virtual_sensors = 8\<rparr> = []
        \<and> tiers_tried (snd (snd (py_bsec_init scripted_engine (initial_state [0, - 34, 10, 0])))) =
       [(replicate 8 BSEC_SAMPLE_RATE_LP, 10), (replicate 8 BSEC_SAMPLE_RATE_SCAN, BSEC_OK)]"
    by (simp add: run_LP_rejected)
  with len i c r1 r2 r3 f show ?thesis
    by (simp add: run_LP_rejected)
qed

text \<open>
  Claim C2. When the library answers the LP, the SCAN and the ULP request each with a status
  other than \<^verbatim>\<open>BSEC_OK\<close>, \<^verbatim>\<open>py_bsec_init\<close> returns the status of the ULP answer, which is
  not 0; the engine is in the state the ULP call left, the attempts are the three tiers in
  order, and neither success line is printed.
\<close>

theorem all_tiers_rejected:
  assumes "length (requested_virtual_sensors s) = 8"
    and "bsec_init lib (engine s) = (BSEC_OK, e0)"
    and "bsec_set_configuration lib (bsec_config_iaq lib)
           (word_of_nat (length (bsec_config_iaq lib))) None 0 e0 = (stc, ec)"
    and "bsec_update_subscription lib (full_bundle BSEC_SAMPLE_RATE_LP) 8
           (BSEC_MAX_PHYSICAL_SENSOR lib) ec = ((st1, q1, c1), e1)"
    and "bsec_update_subscription lib (full_bundle BSEC_SAMPLE_RATE_SCAN) 8 c1 e1 =
           ((st2, q2, c2), e2)"
    and "bsec_update_subscription lib (full_bundle BSEC_SAMPLE_RATE_ULP) 8 c2 e2 =
           ((st3, q3, c3), e3)"
    and "st1 \<noteq> BSEC_OK" and "st2 \<noteq> BSEC_OK" and "st3 \<noteq> BSEC_OK"
    and "py_bsec_init lib s = (r, s', tr)"
  shows "r = st3 \<and> r \<noteq> 0 \<and> engine s' = e3
       \<and> tiers_tried tr = [(replicate 8 BSEC_SAMPLE_RATE_LP, st1),
                            (replicate 8 BSEC_SAMPLE_RATE_SCAN, st2),
                            (replicate 8 BSEC_SAMPLE_RATE_ULP, st3)]
       \<and> Stdout Msg_LP_success \<notin> set tr \<and> Stdout Msg_SCAN_success \<notin> set tr"
  using py_bsec_init_run [OF assms(1-6)] assms(7-10)
  by (auto simp: tiers_tried_def full_bundle_contents BSEC_OK_def)

theorem all_tiers_rejected_witness:
  "length (requested_virtual_sensors (initial_state [0, 0, 10, - 2, - 13 :: int])) = 8
   \<and> bsec_init scripted_engine (engine (initial_state [0, 0, 10, - 2, - 13])) =
       (BSEC_OK, [0, 10, - 2, - 13])
   \<and> bsec_set_configuration scripted_engine (bsec_config_iaq scripted_engine)
         (word_of_nat (length (bsec_config_iaq scripted_engine))) None 0 [0, 10, - 2, - 13] =
       (0, [10, - 2, - 13])
   \<and> bsec_update_subscription scripted_engine (full_bundle BSEC_SAMPLE_RATE_LP) 8
         (BSEC_MAX_PHYSICAL_SENSOR scripted_engine) [10, - 2, - 13] = ((10, [], 0), [- 2, - 13])
   \<and> bsec_update_subscription scripted_engine (full_bundle BSEC_SAMPLE_RATE_SCAN) 8 0
         [- 2, - 13] = ((- 2, [], 0), [- 13])
   \<and> bsec_update_subscription scripted_engine (full_bundle BSEC_SAMPLE_RATE_ULP) 8 0 [- 13] =
       ((- 13, [], 0), [])
   \<and> 10 \<noteq> BSEC_OK \<and> - 2 \<noteq> BSEC_OK \<and> - 13 \<noteq> BSEC_OK
   \<and> fst (py_bsec_init scripted_engine (initial_state [0, 0, 10, - 2, - 13])) = - 13
   \<and> engine (fst (snd (py_bsec_init scripted_engine (initial_state [0, 0, 10, - 2, - 13])))) = []
   \<and> tiers_tried (snd (snd (py_bsec_init scripted_engine (initial_state [0, 0, 10, - 2, - 13])))) =
       [(replicate 8 BSEC_SAMPLE_RATE_LP, 10), (replicate 8 BSEC_SAMPLE_RATE_SCAN, - 2),
        (replicate 8 BSEC_SAMPLE_RATE_ULP, - 13)]
   \<and> Stdout Msg_LP_success
       \<notin> set (snd (snd (py_bsec_init scripted_engine (initial_state [0, 0, 10, - 2, - 13]))))
   \<and> Stdout Msg_SCAN_success
       \<notin> set (snd (snd (py_bsec_init scripted_engine (initial_state [0, 0, 10, - 2, - 13]))))"
proof -
  have len: "length (requested_virtual_sensors (initial_state [0, 0, 10, - 2, - 13 :: int])) = 8"
    by (simp add: initial_state_def)
  have i: "bsec_init scripted_engine (engine (initial_state [0, 0, 10, - 2, - 13])) =
       (BSEC_OK, [0, 10, - 2, - 13])"
    by (simp add: answer_defs)
  have c: "bsec_set_configuration scripted_engine (bsec_config_iaq scripted_engine)
         (word_of_nat (length (bsec_config_iaq scripted_engine))) None 0 [0, 10, - 2, - 13] =
       (0, [10, - 2, - 13])"
    by (simp add: answer_defs)
  have r1: "bsec_update_subscription scripted_engine (full_bundle BSEC_SAMPLE_RATE_LP) 8
         (BSEC_MAX_PHYSICAL_SENSOR scripted_engine) [10, - 2, - 13] = ((10, [], 0), [- 2, - 13])"
    by (simp add: answer_defs)
  have r2: "bsec_update_subscription scripted_engine (full_bundle BSEC_SAMPLE_RATE_SCAN) 8 0
         [- 2, - 13] = ((- 2, [], 0), [- 13])"
    by (simp add: answer_defs)
  have r3: "bsec_update_subscription scripted_engine (full_bundle BSEC_SAMPLE_RATE_ULP) 8 0 [- 13] =
       ((- 13, [], 0), [])"
    by (simp add: answer_defs)
  have f: "10 \<noteq> BSEC_OK" "- 2 \<noteq> BSEC_OK" "- 13 \<noteq> BSEC_OK"
    by (simp_all add: BSEC_OK_def)
  from all_tiers_rejected [OF len i c r1 r2 r3 f run_all_rejected]
  have "tiers_tried (snd (snd (py_bsec_init scripted_engine (initial_state [0, 0, 10, - 2, - 13])))) =
       [(replicate 8 BSEC_SAMPLE_RATE_LP, 10), (replicate 8 BSEC_SAMPLE_RATE_SCAN, - 2),
        (replicate 8 BSEC_SAMPLE_RATE_ULP, - 13)]
     \<and> Stdout Msg_LP_success
       \<notin> set (snd (snd (py_bsec_init scripted_engine (initial_state [0, 0, 10, - 2, - 13]))))
     \<and> Stdout Msg_SCAN_success
       \<notin> set (snd (snd (py_bsec_init scripted_engine (initial_state [0, 0, 10, - 2, - 13]))))"
    by (simp add: run_all_rejected)
  with len i c r1 r2 r3 f show ?thesis
    by (simp add: run_all_rejected)
qed

text \<open>
  Claim C7. Every subscription update of \<^verbatim>\<open>py_bsec_init\<close> hands the library the bundle
  \<open>full_bundle tier\<close> with the count 8, for the tier of that call: LP at the first, SCAN at
  the second, ULP at the third. The calls made, the engine state and the static array
  afterwards are those of the library's answers to exactly these bundles, and
  \<open>full_bundle tier\<close> has eight entries, with the eight fixed identifiers in the order of the
  source and \<open>tier\<close> as the sample rate of each.
\<close>

theorem bundle_at_every_call:
  assumes "length (requested_virtual_sensors s) = 8"
    and "bsec_init lib (engine s) = (BSEC_OK, e0)"
    and "bsec_set_configuration lib (bsec_config_iaq lib)
           (word_of_nat (length (bsec_config_iaq lib))) None 0 e0 = (stc, ec)"
    and "bsec_update_subscription lib (full_bundle BSEC_SAMPLE_RATE_LP) 8
           (BSEC_MAX_PHYSICAL_SENSOR lib) ec = ((st1, q1, c1), e1)"
    and "bsec_update_subscription lib (full_bundle BSEC_SAMPLE_RATE_SCAN) 8 c1 e1 =
           ((st2, q2, c2), e2)"
    and "bsec_update_subscription lib (full_bundle BSEC_SAMPLE_RATE_ULP) 8 c2 e2 =
           ((st3, q3, c3), e3)"
    and "py_bsec_init lib s = (r, s', tr)"
  shows "(st1 = BSEC_OK \<longrightarrow>
            subscription_calls tr =
              [(full_bundle BSEC_SAMPLE_RATE_LP, 8, unat (BSEC_MAX_PHYSICAL_SENSOR lib),
                BSEC_MAX_PHYSICAL_SENSOR lib, st1)]
            \<and> engine s' = e1
            \<and> requested_virtual_sensors s' = full_bundle BSEC_SAMPLE_RATE_LP)
       \<and> (st1 \<noteq> BSEC_OK \<and> st2 = BSEC_OK \<longrightarrow>
            subscription_calls tr =
              [(full_bundle BSEC_SAMPLE_RATE_LP, 8, unat (BSEC_MAX_PHYSICAL_SENSOR lib),
                BSEC_MAX_PHYSICAL_SENSOR lib, st1),
               (full_bundle BSEC_SAMPLE_RATE_SCAN, 8, unat (BSEC_MAX_PHYSICAL_SENSOR lib),
                c1, st2)]
            \<and> engine s' = e2
            \<and> requested_virtual_sensors s' = full_bundle BSEC_SAMPLE_RATE_SCAN)
       \<and> (st1 \<noteq> BSEC_OK \<and> st2 \<noteq> BSEC_OK \<longrightarrow>
            subscription_calls tr =
              [(full_bundle BSEC_SAMPLE_RATE_LP, 8, unat (BSEC_MAX_PHYSICAL_SENSOR lib),
                BSEC_MAX_PHYSICAL_SENSOR lib, st1),
               (full_bundle BSEC_SAMPLE_RATE_SCAN, 8, unat (BSEC_MAX_PHYSICAL_SENSOR lib),
                c1, st2),
               (full_bundle BSEC_SAMPLE_RATE_ULP, 8, unat (BSEC_MAX_PHYSICAL_SENSOR lib),
                c2, st3)]
            \<and> engine s' = e3
            \<and> requested_virtual_sensors s' = full_bundle BSEC_SAMPLE_RATE_ULP)
       \<and> n_requested_virtual_sensors s' = 8
       \<and> (\<forall>tier. length (full_bundle tier) = 8
             \<and> map sensor_id (full_bundle tier) =
                 [BSEC_OUTPUT_IAQ, BSEC_OUTPUT_STATIC_IAQ, BSEC_OUTPUT_CO2_EQUIVALENT,
                  BSEC_OUTPUT_BREATH_VOC_EQUIVALENT, BSEC_OUTPUT_COMPENSATED_GAS,
                  BSEC_OUTPUT_GAS_PERCENTAGE, BSEC_OUTPUT_STABILIZATION_STATUS,
                  BSEC_OUTPUT_RUN_IN_STATUS]
             \<and> map sample_rate (full_bundle tier) = replicate 8 tier)"
  using py_bsec_init_run [OF assms(1-6)] assms(7)
  by (auto simp: full_bundle_contents split: if_splits)

theorem bundle_at_every_call_witness:
  "length (requested_virtual_sensors (initial_state [0, - 34, 10, 0 :: int])) = 8
   \<and> bsec_init scripted_engine (engine (initial_state [0, - 34, 10, 0])) =
       (BSEC_OK, [- 34, 10, 0])
   \<and> bsec_set_configuration scripted_engine (bsec_config_iaq scripted_engine)
         (word_of_nat (length (bsec_config_iaq scripted_engine))) None 0 [- 34, 10, 0] =
       (- 34, [10, 0])
   \<and> bsec_update_subscription scripted_engine (full_bundle BSEC_SAMPLE_RATE_LP) 8
         (BSEC_MAX_PHYSICAL_SENSOR scripted_engine) [10, 0] = ((10, [], 0), [0])
   \<and> bsec_update_subscription scripted_engine (full_bundle BSEC_SAMPLE_RATE_SCAN) 8 0 [0] =
       ((BSEC_OK, [], 0), [])
   \<and> bsec_update_subscription scripted_engine (full_bundle BSEC_SAMPLE_RATE_ULP) 8 0 [] =
       ((0, [], 0), [])
   \<and> 10 \<noteq> BSEC_OK
   \<and> subscription_calls
        (snd (snd (py_bsec_init scripted_engine (initial_state [0, - 34, 10, 0])))) =
       [(full_bundle BSEC_SAMPLE_RATE_LP, 8, unat (BSEC_MAX_PHYSICAL_SENSOR scripted_engine),
         BSEC_MAX_PHYSICAL_SENSOR scripted_engine, 10),
        (full_bundle BSEC_SAMPLE_RATE_SCAN, 8, unat (BSEC_MAX_PHYSICAL_SENSOR scripted_engine),
         0, BSEC_OK)]
   \<and> requested_virtual_sensors
        (fst (snd (py_bsec_init scripted_engine (initial_state [0, - 34, 10, 0])))) =
       full_bundle BSEC_SAMPLE_RATE_SCAN
   \<and> n_requested_virtual_sensors
        (fst (snd (py_bsec_init scripted_engine (initial_state [0, - 34, 10, 0])))) = 8"
proof -
  have len: "length (requested_virtual_sensors (initial_state [0, - 34, 10, 0 :: int])) = 8"
    by (simp add: initial_state_def)
  have i: "bsec_init scripted_engine (engine (initial_state [0, - 34, 10, 0])) =
       (BSEC_OK, [- 34, 10, 0])"
    by (simp add: answer_defs)
  have c: "bsec_set_configuration scripted_engine (bsec_config_iaq scripted_engine)
         (word_of_nat (length (bsec_config_iaq scripted_engine))) None 0 [- 34, 10, 0] =
       (- 34, [10, 0])"
    by (simp add: answer_defs)
  have r1: "bsec_update_subscription scripted_engine (full_bundle BSEC_SAMPLE_RATE_LP) 8
         (BSEC_MAX_PHYSICAL_SENSOR scripted_engine) [10, 0] = ((10, [], 0), [0])"
    by (simp add: answer_defs)
  have r2: "bsec_update_subscription scripted_engine (full_bundle BSEC_SAMPLE_RATE_SCAN) 8 0 [0] =
       ((BSEC_OK, [], 0), [])"
    by (simp add: answer_defs)
  have r3: "bsec_update_subscription scripted_engine (full_bundle BSEC_SAMPLE_RATE_ULP) 8 0 [] =
       ((0, [], 0), [])"
    by (simp add: answer_defs)
  have f: "10 \<noteq> BSEC_OK" by (simp add: BSEC_OK_def)
  from bundle_at_every_call [OF len i c r1 r2 r3 run_LP_rejected] f
  have "subscription_calls
        (snd (snd (py_bsec_init scripted_engine (initial_state [0, - 34, 10, 0])))) =
       [(full_bundle BSEC_SAMPLE_RATE_LP, 8, unat (BSEC_MAX_PHYSICAL_SENSOR scripted_engine),
         BSEC_MAX_PHYSICAL_SENSOR scripted_engine, 10),
        (full_bundle BSEC_SAMPLE_RATE_SCAN, 8, unat (BSEC_MAX_PHYSICAL_SENSOR scripted_engine),
         0, BSEC_OK)]"
    by (simp add: run_LP_rejected)
  with len i c r1 r2 r3 f show ?thesis
    by (simp add: run_LP_rejected)
qed

text \<open>
  Claim C9. When \<^verbatim>\<open>bsec_init\<close> returns a status other than \<^verbatim>\<open>BSEC_OK\<close>,
  \<^verbatim>\<open>py_bsec_init\<close> returns that status, the call of \<^verbatim>\<open>bsec_init\<close> is the only thing it
  does (no configuration load, no subscription update, no output), and the static bundle
  array and its count are as they were.
\<close>

theorem init_failure_returns_at_once:
  assumes "bsec_init lib (engine s) = (st, e)" and "st \<noteq> BSEC_OK"
    and "py_bsec_init lib s = (r, s', tr)"
  shows "r = st \<and> tr = [Engine (Call_bsec_init st)]
       \<and> requested_virtual_sensors s' = requested_virtual_sensors s
       \<and> n_requested_virtual_sensors s' = n_requested_virtual_sensors s
       \<and> engine s' = e"
  using py_bsec_init_fail [OF assms(1,2)] assms(3) by auto

theorem init_failure_returns_at_once_witness:
  "bsec_init scripted_engine (engine (initial_state [- 1, 0, 0])) = (- 1, [0, 0])
   \<and> - 1 \<noteq> BSEC_OK
   \<and> py_bsec_init scripted_engine (initial_state [- 1, 0, 0]) =
       (- 1, initial_state [0, 0], [Engine (Call_bsec_init (- 1))])
   \<and> requested_virtual_sensors (initial_state [0, 0 :: int]) =
       requested_virtual_sensors (initial_state [- 1, 0, 0 :: int])"
proof -
  have i: "bsec_init scripted_engine (engine (initial_state [- 1, 0, 0])) = (- 1, [0, 0])"
    by (simp add: initial_state_def scripted_engine_def next_status_def)
  have f: "- 1 \<noteq> BSEC_OK"
    by (simp add: BSEC_OK_def)
  show ?thesis
    using i f init_failure_returns_at_once [OF i f run_init_rejected]
    by (simp add: run_init_rejected)
qed






text \<open>
  Claim C6, evaluated where the code departs from it. \<open>n_required_sensor_settings\<close> is set
  to \<^verbatim>\<open>BSEC_MAX_PHYSICAL_SENSOR\<close> once, before the LP attempt, and is passed by address at
  all three attempts. On an engine with \<^verbatim>\<open>BSEC_MAX_PHYSICAL_SENSOR\<close> = 8 that rejects LP with
  status 10 and stores the number of settings it returned (0) in the count, the SCAN attempt
  is made with the eight-slot array and a count of 0, not 8.
\<close>

theorem stale_capacity_count_at_second_call:
  "BSEC_MAX_PHYSICAL_SENSOR scripted_engine = 8
   \<and> subscription_calls (snd (snd (py_bsec_init scripted_engine (initial_state [0, - 34, 10, 0])))) =
       [(full_bundle BSEC_SAMPLE_RATE_LP, 8, 8, 8, 10),
        (full_bundle BSEC_SAMPLE_RATE_SCAN, 8, 8, 0, 0)]"
  by (simp add: run_LP_rejected) (simp add: scripted_engine_def)

section \<open>Binary32 products\<close>

lemma bit_length_0 [simp]: "bit_length 0 = 0"
  by (simp add: bit_length.simps)

lemma bit_length_pos: "0 < n \<Longrightarrow> bit_length n = Suc (bit_length (n div 2))"
  by (subst bit_length.simps) simp

lemma bit_length_upper: "n < 2 ^ bit_length n"
proof (induction n rule: bit_length.induct)
  case (1 n)
  show ?case
  proof (cases "n = 0")
    case True
    then show ?thesis by simp
  next
    case False
    with 1 have "n div 2 < 2 ^ bit_length (n div 2)" by simp
    then have "n < 2 * 2 ^ bit_length (n div 2)" by arith
    with False show ?thesis by (simp add: bit_length_pos)
  qed
qed

lemma bit_length_lower: "0 < n \<Longrightarrow> 2 ^ (bit_length n - 1) \<le> n"
proof (induction n rule: bit_length.induct)
  case (1 n)
  show ?case
  proof (cases "n div 2 = 0")
    case True
    with 1(2) have "n = 1" by arith
    then show ?thesis by (simp add: bit_length_pos)
  next
    case False
    with 1 have "2 ^ (bit_length (n div 2) - 1) \<le> n div 2" by simp
    moreover from False have "0 < bit_length (n div 2)" by (simp add: bit_length_pos)
    ultimately have "2 ^ bit_length (n div 2) \<le> 2 * (n div 2)"
      by (cases "bit_length (n div 2)") simp_all
    also have "\<dots> \<le> n" by arith
    finally show ?thesis using 1(2) by (simp add: bit_length_pos)
  qed
qed

lemma bit_length_eqI: "2 ^ k \<le> n \<Longrightarrow> n < 2 ^ Suc k \<Longrightarrow> bit_length n = Suc k"
proof -
  assume lo: "2 ^ k \<le> n" and hi: "n < 2 ^ Suc k"
  then have pos: "0 < n" by (metis less_le_trans zero_less_numeral zero_less_power)
  have "2 ^ k < (2::nat) ^ bit_length n"
    using lo bit_length_upper [of n] by (rule le_less_trans)
  then have a: "k < bit_length n"
    by (rule power_less_imp_less_exp [rotated]) simp
  have "2 ^ (bit_length n - 1) < (2::nat) ^ Suc k"
    using bit_length_lower [OF pos] hi by (rule le_less_trans)
  then have b: "bit_length n - 1 < Suc k"
    by (rule power_less_imp_less_exp [rotated]) simp
  from a b show ?thesis by arith
qed

lemma bit_length_le: "n < 2 ^ k \<Longrightarrow> bit_length n \<le> k"
proof (rule ccontr)
  assume n: "n < 2 ^ k" and "\<not> bit_length n \<le> k"
  then have k: "k \<le> bit_length n - 1" and pos: "0 < n"
    by (auto intro: gr0I)
  then have "(2::nat) ^ k \<le> 2 ^ (bit_length n - 1)" by simp
  also have "\<dots> \<le> n" by (rule bit_length_lower [OF pos])
  finally show False using n by simp
qed

lemma bit_length_shift: "0 < m \<Longrightarrow> bit_length (m * 2 ^ k) = bit_length m + k"
proof -
  assume pos: "0 < m"
  then obtain j where j: "bit_length m = Suc j"
    by (cases "bit_length m") (simp_all add: bit_length_pos)
  have lo: "2 ^ j \<le> m" using bit_length_lower [OF pos] j by simp
  have hi: "m < 2 ^ Suc j" using bit_length_upper [of m] j by simp
  have "2 ^ (j + k) \<le> m * 2 ^ k"
    using lo by (simp add: power_add)
  moreover have "m * 2 ^ k < 2 ^ Suc (j + k)"
    using hi by (simp add: power_add)
  ultimately have "bit_length (m * 2 ^ k) = Suc (j + k)"
    by (rule bit_length_eqI)
  with j show ?thesis by simp
qed

lemma encode_subnormal:
  "encode sg (unat (f :: 23 word)) 0 = \<lparr>sign_bit = sg, biased_exponent = 0, fraction = f\<rparr>"
proof -
  have "unat f < 2 ^ 23" using unsigned_less [of f] by simp
  then show ?thesis by (simp add: encode_def)
qed

lemma encode_normal:
  assumes "e \<noteq> (0 :: 8 word)" "e \<noteq> 255"
  shows "encode sg (2 ^ 23 + unat (f :: 23 word)) (unat e - 1) =
           \<lparr>sign_bit = sg, biased_exponent = e, fraction = f\<rparr>"
proof -
  have f: "unat f < 2 ^ 23" using unsigned_less [of f] by simp
  have e0: "0 < unat e" using assms(1) by unat_arith
  have "unat e \<noteq> 255" using assms(2) by unat_arith
  moreover have "unat e < 256" using unsigned_less [of e] by simp
  ultimately have e1: "unat e \<le> 254" by arith
  from f e0 e1 show ?thesis
    by (simp add: encode_def)
qed

lemma round_exact:
  assumes "is_finite y"
  shows "round_to_float32 sg (magnitude y * 2 ^ 149) = y\<lparr>sign_bit := sg\<rparr>"
proof (cases "biased_exponent y = 0")
  case True
  let ?f = "unat (fraction y)"
  have f: "?f < 2 ^ 23" using unsigned_less [of "fraction y"] by simp
  have mag: "magnitude y = ?f" using True by (simp add: magnitude_def)
  have "?f * 2 ^ 149 < 2 ^ 23 * (2::nat) ^ 149" using f by simp
  then have "?f * 2 ^ 149 < (2::nat) ^ 172" by (simp flip: power_add)
  then have "bit_length (?f * 2 ^ 149) \<le> 172" by (rule bit_length_le)
  then have q: "max (bit_length (?f * 2 ^ 149) - 24) 149 = 149" by simp
  have "round_to_float32 sg (?f * 2 ^ 149) = encode sg ?f 0"
    unfolding round_to_float32_def q Let_def by simp
  also have "\<dots> = \<lparr>sign_bit = sg, biased_exponent = 0, fraction = fraction y\<rparr>"
    by (rule encode_subnormal)
  also have "\<dots> = y\<lparr>sign_bit := sg\<rparr>" using True by simp
  finally show ?thesis by (simp add: mag)
next
  case False
  let ?f = "unat (fraction y)" and ?e = "unat (biased_exponent y) - 1"
  let ?m = "2 ^ 23 + ?f"
  have e255: "biased_exponent y \<noteq> 255" using assms by (simp add: is_finite_def)
  have f: "?f < 2 ^ 23" using unsigned_less [of "fraction y"] by simp
  have mag: "magnitude y = ?m * 2 ^ ?e" using False by (simp add: magnitude_def)
  have "bit_length ?m = Suc 23"
    using f by (intro bit_length_eqI) simp_all
  then have bl: "bit_length (?m * 2 ^ (?e + 149)) = 24 + (?e + 149)"
    by (subst bit_length_shift) simp_all
  have N: "magnitude y * 2 ^ 149 = ?m * 2 ^ (?e + 149)"
    by (simp add: mag power_add)
  have q: "max (bit_length (?m * 2 ^ (?e + 149)) - 24) 149 = ?e + 149"
    unfolding bl by simp
  have "round_to_float32 sg (?m * 2 ^ (?e + 149)) = encode sg ?m ?e"
    unfolding round_to_float32_def q Let_def by simp
  also have "\<dots> = \<lparr>sign_bit = sg, biased_exponent = biased_exponent y, fraction = fraction y\<rparr>"
    using False e255 by (rule encode_normal)
  also have "\<dots> = y\<lparr>sign_bit := sg\<rparr>" by simp
  finally show ?thesis by (simp only: N)
qed

lemma magnitude_float_100_0: "magnitude float_100_0 = 100 * 2 ^ 149"
  by (simp add: magnitude_def float_100_0_def)

lemma float_100_0_finite: "is_finite float_100_0" "\<not> is_nan float_100_0"
  by (simp_all add: is_finite_def is_nan_def float_100_0_def)

lemma fmul32_100_finite:
  assumes "is_finite p"
  shows "fmul32 p float_100_0 = round_to_float32 (sign_bit p) (magnitude p * 100 * 2 ^ 149)"
proof -
  have "\<not> is_nan p" using assms by (simp add: is_finite_def is_nan_def)
  moreover have "sign_bit float_100_0 = False" by (simp add: float_100_0_def)
  ultimately show ?thesis
    using assms float_100_0_finite
    by (simp add: fmul32_def magnitude_float_100_0 mult.assoc)
qed

lemma fmul32_100_exact:
  assumes p: "is_finite p" and y: "is_finite y" and v: "valof y = valof p * 100"
  shows "fmul32 p float_100_0 = y\<lparr>sign_bit := sign_bit p\<rparr>"
proof -
  have "\<bar>valof y\<bar> = \<bar>valof p * 100\<bar>" using v by simp
  then have "real (magnitude y) / 2 ^ 149 = real (magnitude p) * 100 / 2 ^ 149"
    by (simp add: valof_def abs_mult split: if_splits)
  then have "real (magnitude y) = real (magnitude p * 100)" by simp
  then have "magnitude y = magnitude p * 100" by (simp only: of_nat_eq_iff)
  then show ?thesis
    using round_exact [OF y, of "sign_bit p"] by (simp add: fmul32_100_finite [OF p])
qed

lemma valof_sign_update:
  "valof (y\<lparr>sign_bit := sg\<rparr>) = (if sg then - 1 else 1) * real (magnitude y) / 2 ^ 149"
  by (simp add: valof_def magnitude_def)

lemma fmul32_100_value:
  assumes p: "is_finite p" and y: "is_finite y" and v: "valof y = valof p * 100"
  shows "valof (fmul32 p float_100_0) = valof p * 100" "is_finite (fmul32 p float_100_0)"
proof -
  have "\<bar>valof y\<bar> = \<bar>valof p * 100\<bar>" using v by simp
  then have "real (magnitude y) / 2 ^ 149 = real (magnitude p) * 100 / 2 ^ 149"
    by (simp add: valof_def abs_mult split: if_splits)
  then show "valof (fmul32 p float_100_0) = valof p * 100"
    unfolding fmul32_100_exact [OF assms] valof_sign_update
    by (simp add: valof_def)
  show "is_finite (fmul32 p float_100_0)"
    unfolding fmul32_100_exact [OF assms] using y by (simp add: is_finite_def)
qed

lemma valof_constants:
  "valof float_100_0 = 100" "valof float_25_0 = 25" "valof float_400_0 = 400"
  "valof float_0_5 = 1 / 2" "valof float_10_0 = 10" "valof float_1013_25 = 1013.25"
  "valof float_101325_0 = 101325" "valof float_0_1 = 13421773 / 2 ^ 27"
  by (simp_all add: valof_def magnitude_def float_100_0_def float_25_0_def float_400_0_def
      float_0_5_def float_10_0_def float_1013_25_def float_101325_0_def float_0_1_def)

lemma fmul32_0_1: "fmul32 float_0_1 float_100_0 = float_10_0"
proof -
  have fin: "is_finite float_0_1" by (simp add: is_finite_def float_0_1_def)
  have mag: "magnitude float_0_1 = 13421773 * 2 ^ 122"
    by (simp add: magnitude_def float_0_1_def)
  have N: "magnitude float_0_1 * 100 * 2 ^ 149 = 1342177300 * 2 ^ 271"
    unfolding mag by simp
  have "bit_length (1342177300 :: nat) = Suc 30"
    by (rule bit_length_eqI) simp_all
  then have bl: "bit_length (1342177300 * 2 ^ 271) = 302"
    by (subst bit_length_shift) simp_all
  have q: "max (bit_length (1342177300 * 2 ^ 271) - 24) 149 = 278"
    unfolding bl by simp
  have d: "(1342177300 * 2 ^ 271) div (2 :: nat) ^ 278 = 10485760"
    and m: "(1342177300 * 2 ^ 271) mod (2 :: nat) ^ 278 = 20 * 2 ^ 271"
    by simp_all
  have "round_to_float32 False (1342177300 * 2 ^ 271) = encode False 10485760 129"
    unfolding round_to_float32_def q Let_def d m by simp
  also have "\<dots> = float_10_0"
    by (simp add: encode_def float_10_0_def)
  finally show ?thesis
    unfolding fmul32_100_finite [OF fin] N by (simp add: float_0_1_def)
qed

lemma fmul32_1013_25: "fmul32 float_1013_25 float_100_0 = float_101325_0"
proof -
  have "fmul32 float_1013_25 float_100_0 = float_101325_0\<lparr>sign_bit := sign_bit float_1013_25\<rparr>"
    by (rule fmul32_100_exact)
      (simp_all add: valof_constants, simp_all add: is_finite_def float_1013_25_def float_101325_0_def)
  then show ?thesis by (simp add: float_1013_25_def float_101325_0_def)
qed

lemma fmul32_100_cases:
  "fmul32 p float_100_0 =
     (if is_nan p then quiet p
      else if \<not> is_finite p then infinity (sign_bit p)
      else round_to_float32 (sign_bit p) (magnitude p * 100 * 2 ^ 149))"
proof -
  have "sign_bit float_100_0 = False"
    by (simp add: float_100_0_def)
  moreover have "magnitude float_100_0 \<noteq> 0"
    by (simp add: magnitude_float_100_0)
  ultimately show ?thesis
    using float_100_0_finite
    by (simp add: fmul32_def magnitude_float_100_0 mult.assoc)
qed

lemma fmul32_nan_operand:
  "fmul32 \<lparr>sign_bit = True, biased_exponent = 255, fraction = 0x400000\<rparr> float_100_0 =
     \<lparr>sign_bit = True, biased_exponent = 255, fraction = 0x400000\<rparr>"
  "fmul32 \<lparr>sign_bit = False, biased_exponent = 255, fraction = 1\<rparr> float_100_0 =
     \<lparr>sign_bit = False, biased_exponent = 255, fraction = 0x400001\<rparr>"
  by (simp_all add: fmul32_100_cases is_nan_def quiet_def set_bit_eq_or)

subsection \<open>Rounding on concrete data: overflow, and ties to even\<close>

lemma fmul32_overflow:
  "fmul32 \<lparr>sign_bit = False, biased_exponent = 254, fraction = 0x7FFFFF\<rparr> float_100_0 =
     infinity False"
proof -
  let ?x = "\<lparr>sign_bit = False, biased_exponent = 254, fraction = 0x7FFFFF\<rparr>"
  have fin: "is_finite ?x" by (simp add: is_finite_def)
  have mag: "magnitude ?x = 16777215 * 2 ^ 253"
    by (simp add: magnitude_def)
  have N: "magnitude ?x * 100 * 2 ^ 149 = 1677721500 * 2 ^ 402"
    unfolding mag by simp
  have "bit_length (1677721500 :: nat) = Suc 30"
    by (rule bit_length_eqI) simp_all
  then have bl: "bit_length (1677721500 * 2 ^ 402) = 433"
    by (subst bit_length_shift) simp_all
  have q: "max (bit_length (1677721500 * 2 ^ 402) - 24) 149 = 409"
    unfolding bl by simp
  have d: "(1677721500 * 2 ^ 402) div (2 :: nat) ^ 409 = 13107199"
    and m: "(1677721500 * 2 ^ 402) mod (2 :: nat) ^ 409 = 28 * 2 ^ 402"
    by simp_all
  have "round_to_float32 False (1677721500 * 2 ^ 402) = encode False 13107199 260"
    unfolding round_to_float32_def q Let_def d m by simp
  also have "\<dots> = infinity False"
    by (simp add: encode_def)
  finally show ?thesis
    unfolding fmul32_100_finite [OF fin] N by simp
qed

lemma fmul32_finite:
  assumes "is_finite a" "is_finite b"
  shows "fmul32 a b = round_to_float32 (sign_bit a \<noteq> sign_bit b) (magnitude a * magnitude b)"
  using assms by (simp add: fmul32_def is_finite_def is_nan_def)

lemma fmul32_tie_up:
  "fmul32 \<lparr>sign_bit = False, biased_exponent = 0, fraction = 3\<rparr> float_0_5 =
     \<lparr>sign_bit = False, biased_exponent = 0, fraction = 2\<rparr>"
proof -
  let ?x = "\<lparr>sign_bit = False, biased_exponent = 0, fraction = 3\<rparr>"
  have fin: "is_finite ?x" "is_finite float_0_5"
    by (simp_all add: is_finite_def float_0_5_def)
  have mag: "magnitude ?x = 3" "magnitude float_0_5 = 2 ^ 148"
    by (simp_all add: magnitude_def float_0_5_def)
  have "bit_length (3 :: nat) = Suc 1"
    by (rule bit_length_eqI) simp_all
  then have bl: "bit_length (3 * 2 ^ 148) = 150"
    by (subst bit_length_shift) simp_all
  have q: "max (bit_length (3 * 2 ^ 148) - 24) 149 = 149"
    unfolding bl by simp
  have d: "(3 * 2 ^ 148) div (2 :: nat) ^ 149 = 1"
    and m: "(3 * 2 ^ 148) mod (2 :: nat) ^ 149 = 2 ^ 148"
    by simp_all
  have "round_to_float32 False (3 * 2 ^ 148) = encode False 2 0"
    unfolding round_to_float32_def q Let_def d m by (simp add: numeral_2_eq_2)
  also have "\<dots> = \<lparr>sign_bit = False, biased_exponent = 0, fraction = 2\<rparr>"
    by (simp add: encode_def)
  finally show ?thesis
    unfolding fmul32_finite [OF fin] mag by (simp add: float_0_5_def)
qed

lemma fmul32_tie_down:
  "fmul32 \<lparr>sign_bit = False, biased_exponent = 0, fraction = 5\<rparr> float_0_5 =
     \<lparr>sign_bit = False, biased_exponent = 0, fraction = 2\<rparr>"
proof -
  let ?x = "\<lparr>sign_bit = False, biased_exponent = 0, fraction = 5\<rparr>"
  have fin: "is_finite ?x" "is_finite float_0_5"
    by (simp_all add: is_finite_def float_0_5_def)
  have mag: "magnitude ?x = 5" "magnitude float_0_5 = 2 ^ 148"
    by (simp_all add: magnitude_def float_0_5_def)
  have "bit_length (5 :: nat) = Suc 2"
    by (rule bit_length_eqI) simp_all
  then have bl: "bit_length (5 * 2 ^ 148) = 151"
    by (subst bit_length_shift) simp_all
  have q: "max (bit_length (5 * 2 ^ 148) - 24) 149 = 149"
    unfolding bl by simp
  have d: "(5 * 2 ^ 148) div (2 :: nat) ^ 149 = 2"
    and m: "(5 * 2 ^ 148) mod (2 :: nat) ^ 149 = 2 ^ 148"
    by simp_all
  have "round_to_float32 False (5 * 2 ^ 148) = encode False 2 0"
    unfolding round_to_float32_def q Let_def d m by simp
  also have "\<dots> = \<lparr>sign_bit = False, biased_exponent = 0, fraction = 2\<rparr>"
    by (simp add: encode_def)
  finally show ?thesis
    unfolding fmul32_finite [OF fin] mag by (simp add: float_0_5_def)
qed

section \<open>Properties of \<^verbatim>\<open>py_bsec_do_steps\<close>\<close>

lemma copy_outputs_fold:
  "i \<le> n \<Longrightarrow> unat n \<le> length outputs \<Longrightarrow> unat n \<le> 8 \<Longrightarrow>
     copy_outputs outputs n i p =
       Inr (fold store_output (drop (unat i) (take (unat n) outputs)) p)"
proof (induction outputs n i p rule: copy_outputs.induct)
  case (1 outputs n i p)
  show ?case
  proof (cases "i < n")
    case False
    with 1(2) have "i = n" by simp
    then show ?thesis by (simp add: copy_outputs.simps)
  next
    case True
    then have ui: "unat i < unat n" and suc: "unat (i + 1) = Suc (unat i)" and le: "i + 1 \<le> n"
      by unat_arith+
    from ui 1(3,4) have rd: "read_output outputs i = Inr (outputs ! unat i)"
      by (simp add: read_output_def)
    have "drop (unat i) (take (unat n) outputs) =
            take (unat n) outputs ! unat i # drop (Suc (unat i)) (take (unat n) outputs)"
      using ui 1(3) by (intro Cons_nth_drop_Suc [symmetric]) simp
    then have dr: "drop (unat i) (take (unat n) outputs) =
            outputs ! unat i # drop (unat (i + 1)) (take (unat n) outputs)"
      using ui by (simp add: suc)
    have "copy_outputs outputs n i p =
            copy_outputs outputs n (i + 1) (store_output (outputs ! unat i) p)"
      using True rd by (subst copy_outputs.simps) simp
    also have "\<dots> = Inr (fold store_output (drop (unat (i + 1)) (take (unat n) outputs))
                          (store_output (outputs ! unat i) p))"
      using 1(1) [OF True rd le 1(3,4)] .
    finally show ?thesis by (simp add: dr)
  qed
qed

lemma copy_outputs_error:
  "i < n \<Longrightarrow> \<not> (unat n \<le> length outputs \<and> unat n \<le> 8) \<Longrightarrow>
     \<exists>err. copy_outputs outputs n i p = Inl err"
proof (induction outputs n i p rule: copy_outputs.induct)
  case (1 outputs n i p)
  show ?case
  proof (cases "read_output outputs i")
    case (Inl err)
    with 1(2) show ?thesis by (subst copy_outputs.simps) simp
  next
    case (Inr out)
    then have i: "unat i < 8" "unat i < length outputs"
      by (auto simp: read_output_def split: if_splits)
    from 1(2) have suc: "unat (i + 1) = Suc (unat i)" and le: "i + 1 \<le> n"
      by unat_arith+
    have "i + 1 \<noteq> n"
    proof
      assume "i + 1 = n"
      with suc have "unat n = Suc (unat i)" by simp
      with i 1(3) show False by simp
    qed
    with le have "i + 1 < n" by simp
    from 1(1) [OF 1(2) Inr this 1(3)] obtain err where
      "copy_outputs outputs n (i + 1) (store_output out p) = Inl err" ..
    with 1(2) Inr show ?thesis by (subst copy_outputs.simps) simp
  qed
qed

lemma copy_outputs_Inr:
  assumes "copy_outputs outputs n 0 p = Inr p'"
  shows "p' = fold store_output (take (unat n) outputs) p"
proof (cases "n = 0")
  case True
  with assms show ?thesis by (simp add: copy_outputs.simps)
next
  case False
  then have pos: "0 < n" by (simp add: word_greater_zero_iff)
  have ok: "unat n \<le> length outputs \<and> unat n \<le> 8"
  proof (rule ccontr)
    assume "\<not> ?thesis"
    from copy_outputs_error [OF pos this, of p] assms show False by auto
  qed
  then have "copy_outputs outputs n 0 p = Inr (fold store_output (drop (unat (0 :: 8 word)) (take (unat n) outputs)) p)"
    by (intro copy_outputs_fold) simp_all
  with assms show ?thesis by simp
qed

lemma store_output_fields:
  "iaq (store_output out p) = (if out_sensor_id out = BSEC_OUTPUT_IAQ then out_signal out else iaq p)"
  "iaq_accuracy (store_output out p) =
     (if out_sensor_id out = BSEC_OUTPUT_IAQ then uint (accuracy out) else iaq_accuracy p)"
  "co2_equivalent (store_output out p) =
     (if out_sensor_id out = BSEC_OUTPUT_CO2_EQUIVALENT then out_signal out else co2_equivalent p)"
  "breath_voc_equivalent (store_output out p) =
     (if out_sensor_id out = BSEC_OUTPUT_BREATH_VOC_EQUIVALENT then out_signal out
      else breath_voc_equivalent p)"
  by (simp_all add: store_output_def split: bsec_virtual_sensor_t.splits)

lemma last_output_snoc:
  "last_output v (outs @ [out]) = (if out_sensor_id out = v then Some out else last_output v outs)"
  by (simp add: last_output_def Let_def)

lemma last_output_Nil [simp]: "last_output v [] = None"
  by (simp add: last_output_def)

lemma fold_store_output:
  "iaq (fold store_output outs p) =
     (case last_output BSEC_OUTPUT_IAQ outs of None \<Rightarrow> iaq p | Some out \<Rightarrow> out_signal out)
   \<and> iaq_accuracy (fold store_output outs p) =
     (case last_output BSEC_OUTPUT_IAQ outs of None \<Rightarrow> iaq_accuracy p
      | Some out \<Rightarrow> uint (accuracy out))
   \<and> co2_equivalent (fold store_output outs p) =
     (case last_output BSEC_OUTPUT_CO2_EQUIVALENT outs of None \<Rightarrow> co2_equivalent p
      | Some out \<Rightarrow> out_signal out)
   \<and> breath_voc_equivalent (fold store_output outs p) =
     (case last_output BSEC_OUTPUT_BREATH_VOC_EQUIVALENT outs of
        None \<Rightarrow> breath_voc_equivalent p | Some out \<Rightarrow> out_signal out)"
  by (induction outs rule: rev_induct) (simp_all add: store_output_fields last_output_snoc)

lemma last_output_absent:
  "v \<notin> out_sensor_id ` set outs \<Longrightarrow> last_output v outs = None"
proof -
  assume "v \<notin> out_sensor_id ` set outs"
  then have "filter (\<lambda>out. out_sensor_id out = v) outs = []"
    by (auto simp: filter_empty_conv)
  then show ?thesis by (simp add: last_output_def Let_def)
qed


lemma py_bsec_do_steps_run:
  assumes "bsec_do_steps lib (marshalled t h pr g ts) 4 8 (engine s) = ((st, outputs, n_out), e)"
  shows "py_bsec_do_steps lib t h pr g ts p s =
     (if st \<noteq> BSEC_OK then
        (Inr (st, p), s\<lparr>engine := e\<rparr>,
         [Engine (Call_bsec_do_steps (marshalled t h pr g ts) 4 8 8 st outputs n_out),
          Stdout (Msg_BSEC_result st (uint n_out))])
      else
        (case copy_outputs outputs n_out 0
                (p\<lparr>iaq := float_25_0, iaq_accuracy := 0, co2_equivalent := float_400_0,
                   breath_voc_equivalent := float_0_5\<rparr>) of
           Inl err \<Rightarrow>
             (Inl err, s\<lparr>engine := e\<rparr>,
              [Engine (Call_bsec_do_steps (marshalled t h pr g ts) 4 8 8 st outputs n_out),
               Stdout (Msg_BSEC_result st (uint n_out))])
         | Inr p' \<Rightarrow>
             (Inr (0, p'), s\<lparr>engine := e\<rparr>,
              [Engine (Call_bsec_do_steps (marshalled t h pr g ts) 4 8 8 st outputs n_out),
               Stdout (Msg_BSEC_result st (uint n_out)),
               Stdout (Msg_final_values (iaq p') (iaq_accuracy p') (co2_equivalent p')
                         (breath_voc_equivalent p'))])))"
  using assms by (simp add: py_bsec_do_steps_def Let_def split: sum.splits)





text \<open>
  Claim C10. \<^verbatim>\<open>py_bsec_do_steps\<close> hands the library four inputs that each carry the caller's
  \<open>timestamp_ns\<close>: the engine state afterwards and the result are those of the library's
  answer to exactly these inputs with \<open>n_inputs = 4\<close>, and that is the one step call of the
  run.
\<close>

theorem one_timestamp_for_all_inputs:
  assumes "bsec_do_steps lib
             [\<lparr>in_sensor_id = BSEC_INPUT_TEMPERATURE, signal = temperature,
               time_stamp = timestamp_ns\<rparr>,
              \<lparr>in_sensor_id = BSEC_INPUT_HUMIDITY, signal = humidity,
               time_stamp = timestamp_ns\<rparr>,
              \<lparr>in_sensor_id = BSEC_INPUT_PRESSURE, signal = fmul32 pressure float_100_0,
               time_stamp = timestamp_ns\<rparr>,
              \<lparr>in_sensor_id = BSEC_INPUT_GASRESISTOR, signal = gas_resistance,
               time_stamp = timestamp_ns\<rparr>]
             4 8 (engine s) = ((st, outputs, n_out), e)"
    and "py_bsec_do_steps lib temperature humidity pressure gas_resistance timestamp_ns p s =
           (res, s', tr)"
  shows "engine s' = e
       \<and> (st \<noteq> BSEC_OK \<longrightarrow> res = Inr (st, p))
       \<and> (st = BSEC_OK \<longrightarrow>
            res = map_sum id (Pair 0)
              (copy_outputs outputs n_out 0
                 (p\<lparr>iaq := float_25_0, iaq_accuracy := 0, co2_equivalent := float_400_0,
                    breath_voc_equivalent := float_0_5\<rparr>)))
       \<and> steps_counts tr = [(4, 8, 8)]
       \<and> map (map time_stamp) (steps_inputs tr) =
           [[timestamp_ns, timestamp_ns, timestamp_ns, timestamp_ns]]"
  using py_bsec_do_steps_run [OF assms(1), of p] assms(2)
  by (auto split: if_splits sum.splits)

theorem one_timestamp_for_all_inputs_witness:
  "bsec_do_steps (recording (100, [], 0))
     [\<lparr>in_sensor_id = BSEC_INPUT_TEMPERATURE, signal = float_22_5, time_stamp = 1000000000\<rparr>,
      \<lparr>in_sensor_id = BSEC_INPUT_HUMIDITY, signal = float_45_0, time_stamp = 1000000000\<rparr>,
      \<lparr>in_sensor_id = BSEC_INPUT_PRESSURE, signal = fmul32 float_1013_25 float_100_0,
        time_stamp = 1000000000\<rparr>,
      \<lparr>in_sensor_id = BSEC_INPUT_GASRESISTOR, signal = float_50000_0,
        time_stamp = 1000000000\<rparr>]
     4 8 (engine (initial_state [])) =
     ((100, [], 0),
      [[\<lparr>in_sensor_id = BSEC_INPUT_TEMPERATURE, signal = float_22_5, time_stamp = 1000000000\<rparr>,
        \<lparr>in_sensor_id = BSEC_INPUT_HUMIDITY, signal = float_45_0, time_stamp = 1000000000\<rparr>,
        \<lparr>in_sensor_id = BSEC_INPUT_PRESSURE, signal = float_101325_0,
          time_stamp = 1000000000\<rparr>,
        \<lparr>in_sensor_id = BSEC_INPUT_GASRESISTOR, signal = float_50000_0,
          time_stamp = 1000000000\<rparr>]])
   \<and> engine (fst (snd (py_bsec_do_steps (recording (100, [], 0)) float_22_5 float_45_0
          float_1013_25 float_50000_0 1000000000 sentinels (initial_state [])))) =
      [[\<lparr>in_sensor_id = BSEC_INPUT_TEMPERATURE, signal = float_22_5, time_stamp = 1000000000\<rparr>,
        \<lparr>in_sensor_id = BSEC_INPUT_HUMIDITY, signal = float_45_0, time_stamp = 1000000000\<rparr>,
        \<lparr>in_sensor_id = BSEC_INPUT_PRESSURE, signal = float_101325_0,
          time_stamp = 1000000000\<rparr>,
        \<lparr>in_sensor_id = BSEC_INPUT_GASRESISTOR, signal = float_50000_0,
          time_stamp = 1000000000\<rparr>]]
   \<and> fst (py_bsec_do_steps (recording (100, [], 0)) float_22_5 float_45_0
          float_1013_25 float_50000_0 1000000000 sentinels (initial_state [])) =
      Inr (100, sentinels)
   \<and> map (map time_stamp)
       (steps_inputs (snd (snd (py_bsec_do_steps (recording (100, [], 0)) float_22_5 float_45_0
          float_1013_25 float_50000_0 1000000000 sentinels (initial_state []))))) =
      [[1000000000, 1000000000, 1000000000, 1000000000]]"
proof -
  have a: "bsec_do_steps (recording (100, [], 0))
     (marshalled float_22_5 float_45_0 float_1013_25 float_50000_0 1000000000)
     4 8 (engine (initial_state [])) =
     ((100, [], 0),
      [[\<lparr>in_sensor_id = BSEC_INPUT_TEMPERATURE, signal = float_22_5, time_stamp = 1000000000\<rparr>,
        \<lparr>in_sensor_id = BSEC_INPUT_HUMIDITY, signal = float_45_0, time_stamp = 1000000000\<rparr>,
        \<lparr>in_sensor_id = BSEC_INPUT_PRESSURE, signal = float_101325_0,
          time_stamp = 1000000000\<rparr>,
        \<lparr>in_sensor_id = BSEC_INPUT_GASRESISTOR, signal = float_50000_0,
          time_stamp = 1000000000\<rparr>]])"
    by (simp add: recording_def initial_state_def fmul32_1013_25)
  have f: "100 \<noteq> BSEC_OK" by (simp add: BSEC_OK_def)
  obtain res s' tr where run:
    "py_bsec_do_steps (recording (100, [], 0)) float_22_5 float_45_0
          float_1013_25 float_50000_0 1000000000 sentinels (initial_state []) = (res, s', tr)"
    by (rule prod_cases3)
  from one_timestamp_for_all_inputs [OF a run] f a show ?thesis
    by (simp add: run)
qed

text \<open>
  Claim C4. When the library answers the step call with \<^verbatim>\<open>BSEC_OK\<close>, outputs and a count
  \<open>n_out\<close> that is within what it wrote and within the eight slots, \<^verbatim>\<open>py_bsec_do_steps\<close>
  returns 0 and the four locations hold the defaults 25.0, 0, 400.0 and 0.5 overwritten, in
  order, by the first \<open>n_out\<close> outputs, each by its identifier: IAQ and its accuracy from the
  last IAQ output if there is one, likewise CO2-equivalent and breath-VOC-equivalent. So a
  bundle without a CO2-equivalent output leaves 400.0 there, and a bundle of the single IAQ
  output (42.0, accuracy 3) gives 42.0, 3, 400.0 and 0.5.
\<close>

theorem step_success_defaults_then_outputs:
  assumes "bsec_do_steps lib
             [\<lparr>in_sensor_id = BSEC_INPUT_TEMPERATURE, signal = temperature,
               time_stamp = timestamp_ns\<rparr>,
              \<lparr>in_sensor_id = BSEC_INPUT_HUMIDITY, signal = humidity,
               time_stamp = timestamp_ns\<rparr>,
              \<lparr>in_sensor_id = BSEC_INPUT_PRESSURE, signal = fmul32 pressure float_100_0,
               time_stamp = timestamp_ns\<rparr>,
              \<lparr>in_sensor_id = BSEC_INPUT_GASRESISTOR, signal = gas_resistance,
               time_stamp = timestamp_ns\<rparr>]
             4 8 (engine s) = ((BSEC_OK, outputs, n_out), e)"
    and "unat n_out \<le> length outputs" and "unat n_out \<le> 8"
    and "p' = fold store_output (take (unat n_out) outputs)
                (p\<lparr>iaq := float_25_0, iaq_accuracy := 0, co2_equivalent := float_400_0,
                   breath_voc_equivalent := float_0_5\<rparr>)"
    and "py_bsec_do_steps lib temperature humidity pressure gas_resistance timestamp_ns p s =
           (res, s', tr)"
  shows "res = Inr (0, p') \<and> engine s' = e
    \<and> iaq p' =
        (case last_output BSEC_OUTPUT_IAQ (take (unat n_out) outputs) of
           None \<Rightarrow> float_25_0 | Some out \<Rightarrow> out_signal out)
    \<and> iaq_accuracy p' =
        (case last_output BSEC_OUTPUT_IAQ (take (unat n_out) outputs) of
           None \<Rightarrow> 0 | Some out \<Rightarrow> uint (accuracy out))
    \<and> co2_equivalent p' =
        (case last_output BSEC_OUTPUT_CO2_EQUIVALENT (take (unat n_out) outputs) of
           None \<Rightarrow> float_400_0 | Some out \<Rightarrow> out_signal out)
    \<and> breath_voc_equivalent p' =
        (case last_output BSEC_OUTPUT_BREATH_VOC_EQUIVALENT (take (unat n_out) outputs) of
           None \<Rightarrow> float_0_5 | Some out \<Rightarrow> out_signal out)
    \<and> (BSEC_OUTPUT_CO2_EQUIVALENT \<notin> out_sensor_id ` set (take (unat n_out) outputs)
          \<longrightarrow> co2_equivalent p' = float_400_0)
    \<and> (take (unat n_out) outputs =
           [\<lparr>out_sensor_id = BSEC_OUTPUT_IAQ, out_signal = float_42_0, accuracy = 3\<rparr>]
          \<longrightarrow> p' = \<lparr>iaq = float_42_0, iaq_accuracy = 3, co2_equivalent = float_400_0,
                     breath_voc_equivalent = float_0_5\<rparr>)"
proof -
  let ?d = "p\<lparr>iaq := float_25_0, iaq_accuracy := 0, co2_equivalent := float_400_0,
                breath_voc_equivalent := float_0_5\<rparr>"
  let ?b = "take (unat n_out) outputs"
  have p': "p' = fold store_output ?b ?d" by (rule assms(4))
  have "copy_outputs outputs n_out 0 ?d =
          Inr (fold store_output (drop (unat (0 :: 8 word)) ?b) ?d)"
    using assms(2,3) by (intro copy_outputs_fold) simp_all
  then have c: "copy_outputs outputs n_out 0 ?d = Inr p'"
    by (simp add: p')
  have run: "res = Inr (0, p')" "engine s' = e"
    using py_bsec_do_steps_run [OF assms(1), of p] assms(5) by (simp_all add: c)
  have fields: "iaq p' = (case last_output BSEC_OUTPUT_IAQ ?b of
           None \<Rightarrow> float_25_0 | Some out \<Rightarrow> out_signal out)"
    "iaq_accuracy p' = (case last_output BSEC_OUTPUT_IAQ ?b of
           None \<Rightarrow> 0 | Some out \<Rightarrow> uint (accuracy out))"
    "co2_equivalent p' = (case last_output BSEC_OUTPUT_CO2_EQUIVALENT ?b of
           None \<Rightarrow> float_400_0 | Some out \<Rightarrow> out_signal out)"
    "breath_voc_equivalent p' = (case last_output BSEC_OUTPUT_BREATH_VOC_EQUIVALENT ?b of
           None \<Rightarrow> float_0_5 | Some out \<Rightarrow> out_signal out)"
    using fold_store_output [of ?b ?d] by (simp_all add: p' cong: option.case_cong)
  have omitted: "co2_equivalent p' = float_400_0"
    if "BSEC_OUTPUT_CO2_EQUIVALENT \<notin> out_sensor_id ` set ?b"
    using fields(3) last_output_absent [OF that] by simp
  have only_iaq: "p' = \<lparr>iaq = float_42_0, iaq_accuracy = 3, co2_equivalent = float_400_0,
                     breath_voc_equivalent = float_0_5\<rparr>"
    if "?b = [\<lparr>out_sensor_id = BSEC_OUTPUT_IAQ, out_signal = float_42_0, accuracy = 3\<rparr>]"
    unfolding p' that by (simp add: store_output_def)
  from run fields omitted only_iaq show ?thesis by blast
qed

theorem step_success_defaults_then_outputs_witness:
  "bsec_do_steps (recording (BSEC_OK, four_outputs, 3))
     [\<lparr>in_sensor_id = BSEC_INPUT_TEMPERATURE, signal = float_22_5, time_stamp = 1000000000\<rparr>,
      \<lparr>in_sensor_id = BSEC_INPUT_HUMIDITY, signal = float_45_0, time_stamp = 1000000000\<rparr>,
      \<lparr>in_sensor_id = BSEC_INPUT_PRESSURE, signal = fmul32 float_1013_25 float_100_0,
        time_stamp = 1000000000\<rparr>,
      \<lparr>in_sensor_id = BSEC_INPUT_GASRESISTOR, signal = float_50000_0,
        time_stamp = 1000000000\<rparr>]
     4 8 (engine (initial_state [])) =
     ((BSEC_OK, four_outputs, 3),
      [[\<lparr>in_sensor_id = BSEC_INPUT_TEMPERATURE, signal = float_22_5, time_stamp = 1000000000\<rparr>,
        \<lparr>in_sensor_id = BSEC_INPUT_HUMIDITY, signal = float_45_0, time_stamp = 1000000000\<rparr>,
        \<lparr>in_sensor_id = BSEC_INPUT_PRESSURE, signal = float_101325_0,
          time_stamp = 1000000000\<rparr>,
        \<lparr>in_sensor_id = BSEC_INPUT_GASRESISTOR, signal = float_50000_0,
          time_stamp = 1000000000\<rparr>]])
   \<and> unat (3 :: 8 word) \<le> length four_outputs \<and> unat (3 :: 8 word) \<le> 8
   \<and> fold store_output (take (unat (3 :: 8 word)) four_outputs)
         (sentinels\<lparr>iaq := float_25_0, iaq_accuracy := 0, co2_equivalent := float_400_0,
            breath_voc_equivalent := float_0_5\<rparr>) =
       \<lparr>iaq = float_22_5, iaq_accuracy = 1, co2_equivalent = float_400_0,
          breath_voc_equivalent = float_10_0\<rparr>
   \<and> fst (py_bsec_do_steps (recording (BSEC_OK, four_outputs, 3)) float_22_5 float_45_0
          float_1013_25 float_50000_0 1000000000 sentinels (initial_state [])) =
       Inr (0, \<lparr>iaq = float_22_5, iaq_accuracy = 1, co2_equivalent = float_400_0,
                  breath_voc_equivalent = float_10_0\<rparr>)
   \<and> BSEC_OUTPUT_CO2_EQUIVALENT
       \<notin> out_sensor_id ` set (take (unat (3 :: 8 word)) four_outputs)
   \<and> take (unat (1 :: 8 word))
         [\<lparr>out_sensor_id = BSEC_OUTPUT_IAQ, out_signal = float_42_0, accuracy = 3\<rparr>] =
       [\<lparr>out_sensor_id = BSEC_OUTPUT_IAQ, out_signal = float_42_0, accuracy = 3\<rparr>]
   \<and> fst (py_bsec_do_steps
          (recording (BSEC_OK,
             [\<lparr>out_sensor_id = BSEC_OUTPUT_IAQ, out_signal = float_42_0, accuracy = 3\<rparr>], 1))
          float_22_5 float_45_0 float_1013_25 float_50000_0 1000000000 sentinels
          (initial_state [])) =
       Inr (0, \<lparr>iaq = float_42_0, iaq_accuracy = 3, co2_equivalent = float_400_0,
                  breath_voc_equivalent = float_0_5\<rparr>)"
proof -
  let ?one = "[\<lparr>out_sensor_id = BSEC_OUTPUT_IAQ, out_signal = float_42_0, accuracy = 3\<rparr>]"
  let ?d = "sentinels\<lparr>iaq := float_25_0, iaq_accuracy := 0, co2_equivalent := float_400_0,
            breath_voc_equivalent := float_0_5\<rparr>"
  have a: "bsec_do_steps (recording (BSEC_OK, four_outputs, 3))
     (marshalled float_22_5 float_45_0 float_1013_25 float_50000_0 1000000000)
     4 8 (engine (initial_state [])) =
     ((BSEC_OK, four_outputs, 3),
      [[\<lparr>in_sensor_id = BSEC_INPUT_TEMPERATURE, signal = float_22_5, time_stamp = 1000000000\<rparr>,
        \<lparr>in_sensor_id = BSEC_INPUT_HUMIDITY, signal = float_45_0, time_stamp = 1000000000\<rparr>,
        \<lparr>in_sensor_id = BSEC_INPUT_PRESSURE, signal = float_101325_0,
          time_stamp = 1000000000\<rparr>,
        \<lparr>in_sensor_id = BSEC_INPUT_GASRESISTOR, signal = float_50000_0,
          time_stamp = 1000000000\<rparr>]])"
    by (simp add: recording_def initial_state_def fmul32_1013_25)
  have l: "unat (3 :: 8 word) \<le> length four_outputs" "unat (3 :: 8 word) \<le> 8"
    by (simp_all add: four_outputs_def)
  have t3: "take (unat (3 :: 8 word)) four_outputs =
     [\<lparr>out_sensor_id = BSEC_OUTPUT_IAQ, out_signal = float_42_0, accuracy = 3\<rparr>,
      \<lparr>out_sensor_id = BSEC_OUTPUT_BREATH_VOC_EQUIVALENT, out_signal = float_10_0, accuracy = 0\<rparr>,
      \<lparr>out_sensor_id = BSEC_OUTPUT_IAQ, out_signal = float_22_5, accuracy = 1\<rparr>]"
    by (simp add: four_outputs_def)
  have f: "fold store_output (take (unat (3 :: 8 word)) four_outputs) ?d =
       \<lparr>iaq = float_22_5, iaq_accuracy = 1, co2_equivalent = float_400_0,
          breath_voc_equivalent = float_10_0\<rparr>"
    unfolding t3 by (simp add: store_output_def sentinels_def)
  have absent: "BSEC_OUTPUT_CO2_EQUIVALENT
       \<notin> out_sensor_id ` set (take (unat (3 :: 8 word)) four_outputs)"
    unfolding t3 by simp
  obtain res s' tr where run:
    "py_bsec_do_steps (recording (BSEC_OK, four_outputs, 3)) float_22_5 float_45_0
          float_1013_25 float_50000_0 1000000000 sentinels (initial_state []) = (res, s', tr)"
    by (rule prod_cases3)
  have b: "bsec_do_steps (recording (BSEC_OK, ?one, 1))
     (marshalled float_22_5 float_45_0 float_1013_25 float_50000_0 1000000000)
     4 8 (engine (initial_state [])) =
     ((BSEC_OK, ?one, 1),
      [marshalled float_22_5 float_45_0 float_1013_25 float_50000_0 1000000000])"
    by (simp add: recording_def initial_state_def)
  have l1: "unat (1 :: 8 word) \<le> length ?one" "unat (1 :: 8 word) \<le> 8"
    by simp_all
  have t1: "take (unat (1 :: 8 word)) ?one = ?one"
    by simp
  obtain res1 s1 tr1 where run1:
    "py_bsec_do_steps (recording (BSEC_OK, ?one, 1)) float_22_5 float_45_0
          float_1013_25 float_50000_0 1000000000 sentinels (initial_state []) = (res1, s1, tr1)"
    by (rule prod_cases3)
  from step_success_defaults_then_outputs [OF a l f [symmetric] run]
  have first: "res = Inr (0, \<lparr>iaq = float_22_5, iaq_accuracy = 1, co2_equivalent = float_400_0,
          breath_voc_equivalent = float_10_0\<rparr>)"
    by blast
  from step_success_defaults_then_outputs [OF b l1 refl run1] t1
  have second: "res1 = Inr (0, \<lparr>iaq = float_42_0, iaq_accuracy = 3,
          co2_equivalent = float_400_0, breath_voc_equivalent = float_0_5\<rparr>)"
    by simp
  from a l f absent t1 first second show ?thesis
    by (simp add: run run1)
qed

text \<open>
  Claim C5, amended. \<^verbatim>\<open>py_bsec_do_steps\<close> hands the library the temperature, humidity and
  gas resistance of the caller unmodified, and as the pressure signal the binary32 product of
  the caller's pressure and 100.0f: the engine state afterwards and the result are those of
  the library's answer to exactly these inputs. For a NaN pressure that product is the same
  NaN, quieted; for an infinite one the same infinity; for a finite one it is finite and equal
  to 100 times the pressure whenever 100 times the pressure is itself a finite binary32 value.
\<close>

theorem pressure_times_100_in_binary32:
  assumes "bsec_do_steps lib
             [\<lparr>in_sensor_id = BSEC_INPUT_TEMPERATURE, signal = temperature,
               time_stamp = timestamp_ns\<rparr>,
              \<lparr>in_sensor_id = BSEC_INPUT_HUMIDITY, signal = humidity,
               time_stamp = timestamp_ns\<rparr>,
              \<lparr>in_sensor_id = BSEC_INPUT_PRESSURE, signal = fmul32 pressure float_100_0,
               time_stamp = timestamp_ns\<rparr>,
              \<lparr>in_sensor_id = BSEC_INPUT_GASRESISTOR, signal = gas_resistance,
               time_stamp = timestamp_ns\<rparr>]
             4 8 (engine s) = ((st, outputs, n_out), e)"
    and "py_bsec_do_steps lib temperature humidity pressure gas_resistance timestamp_ns p s =
           (res, s', tr)"
  shows "engine s' = e
       \<and> (st \<noteq> BSEC_OK \<longrightarrow> res = Inr (st, p))
       \<and> (st = BSEC_OK \<longrightarrow>
            res = map_sum id (Pair 0)
              (copy_outputs outputs n_out 0
                 (p\<lparr>iaq := float_25_0, iaq_accuracy := 0, co2_equivalent := float_400_0,
                    breath_voc_equivalent := float_0_5\<rparr>)))
       \<and> map (map in_sensor_id) (steps_inputs tr) =
           [[BSEC_INPUT_TEMPERATURE, BSEC_INPUT_HUMIDITY, BSEC_INPUT_PRESSURE,
             BSEC_INPUT_GASRESISTOR]]
       \<and> map (map signal) (steps_inputs tr) =
           [[temperature, humidity, fmul32 pressure float_100_0, gas_resistance]]
       \<and> (is_nan pressure \<longrightarrow> fmul32 pressure float_100_0 = quiet pressure)
       \<and> (\<not> is_nan pressure \<and> \<not> is_finite pressure \<longrightarrow>
            fmul32 pressure float_100_0 = infinity (sign_bit pressure))
       \<and> (is_finite pressure \<longrightarrow> (\<exists>y. is_finite y \<and> valof y = valof pressure * 100) \<longrightarrow>
            is_finite (fmul32 pressure float_100_0)
            \<and> valof (fmul32 pressure float_100_0) = valof pressure * 100)"
proof -
  have run: "engine s' = e
       \<and> (st \<noteq> BSEC_OK \<longrightarrow> res = Inr (st, p))
       \<and> (st = BSEC_OK \<longrightarrow>
            res = map_sum id (Pair 0)
              (copy_outputs outputs n_out 0
                 (p\<lparr>iaq := float_25_0, iaq_accuracy := 0, co2_equivalent := float_400_0,
                    breath_voc_equivalent := float_0_5\<rparr>)))
       \<and> map (map in_sensor_id) (steps_inputs tr) =
           [[BSEC_INPUT_TEMPERATURE, BSEC_INPUT_HUMIDITY, BSEC_INPUT_PRESSURE,
             BSEC_INPUT_GASRESISTOR]]
       \<and> map (map signal) (steps_inputs tr) =
           [[temperature, humidity, fmul32 pressure float_100_0, gas_resistance]]"
    using py_bsec_do_steps_run [OF assms(1), of p] assms(2)
    by (auto split: if_splits sum.splits)
  have special: "is_nan pressure \<longrightarrow> fmul32 pressure float_100_0 = quiet pressure"
    "\<not> is_nan pressure \<and> \<not> is_finite pressure \<longrightarrow>
       fmul32 pressure float_100_0 = infinity (sign_bit pressure)"
    by (simp_all add: fmul32_100_cases)
  have exact: "is_finite (fmul32 pressure float_100_0)
        \<and> valof (fmul32 pressure float_100_0) = valof pressure * 100"
    if "is_finite pressure" "\<exists>y. is_finite y \<and> valof y = valof pressure * 100"
  proof -
    from that(2) obtain y where "is_finite y" "valof y = valof pressure * 100" by blast
    with that(1) show ?thesis by (simp add: fmul32_100_value)
  qed
  from run special exact show ?thesis by blast
qed

theorem pressure_times_100_in_binary32_witness:
  "bsec_do_steps (recording (100, [], 0))
     [\<lparr>in_sensor_id = BSEC_INPUT_TEMPERATURE, signal = float_22_5, time_stamp = 1000000000\<rparr>,
      \<lparr>in_sensor_id = BSEC_INPUT_HUMIDITY, signal = float_45_0, time_stamp = 1000000000\<rparr>,
      \<lparr>in_sensor_id = BSEC_INPUT_PRESSURE, signal = fmul32 float_1013_25 float_100_0,
        time_stamp = 1000000000\<rparr>,
      \<lparr>in_sensor_id = BSEC_INPUT_GASRESISTOR, signal = float_50000_0,
        time_stamp = 1000000000\<rparr>]
     4 8 (engine (initial_state [])) =
     ((100, [], 0),
      [[\<lparr>in_sensor_id = BSEC_INPUT_TEMPERATURE, signal = float_22_5, time_stamp = 1000000000\<rparr>,
        \<lparr>in_sensor_id = BSEC_INPUT_HUMIDITY, signal = float_45_0, time_stamp = 1000000000\<rparr>,
        \<lparr>in_sensor_id = BSEC_INPUT_PRESSURE, signal = float_101325_0,
          time_stamp = 1000000000\<rparr>,
        \<lparr>in_sensor_id = BSEC_INPUT_GASRESISTOR, signal = float_50000_0,
          time_stamp = 1000000000\<rparr>]])
   \<and> is_finite float_1013_25 \<and> is_finite float_101325_0
   \<and> valof float_101325_0 = valof float_1013_25 * 100
   \<and> engine (fst (snd (py_bsec_do_steps (recording (100, [], 0)) float_22_5 float_45_0
          float_1013_25 float_50000_0 1000000000 sentinels (initial_state [])))) =
      [[\<lparr>in_sensor_id = BSEC_INPUT_TEMPERATURE, signal = float_22_5, time_stamp = 1000000000\<rparr>,
        \<lparr>in_sensor_id = BSEC_INPUT_HUMIDITY, signal = float_45_0, time_stamp = 1000000000\<rparr>,
        \<lparr>in_sensor_id = BSEC_INPUT_PRESSURE, signal = float_101325_0,
          time_stamp = 1000000000\<rparr>,
        \<lparr>in_sensor_id = BSEC_INPUT_GASRESISTOR, signal = float_50000_0,
          time_stamp = 1000000000\<rparr>]]
   \<and> is_finite (fmul32 float_1013_25 float_100_0)
   \<and> valof (fmul32 float_1013_25 float_100_0) = valof float_1013_25 * 100"
proof -
  have a: "bsec_do_steps (recording (100, [], 0))
     (marshalled float_22_5 float_45_0 float_1013_25 float_50000_0 1000000000)
     4 8 (engine (initial_state [])) =
     ((100, [], 0),
      [[\<lparr>in_sensor_id = BSEC_INPUT_TEMPERATURE, signal = float_22_5, time_stamp = 1000000000\<rparr>,
        \<lparr>in_sensor_id = BSEC_INPUT_HUMIDITY, signal = float_45_0, time_stamp = 1000000000\<rparr>,
        \<lparr>in_sensor_id = BSEC_INPUT_PRESSURE, signal = float_101325_0,
          time_stamp = 1000000000\<rparr>,
        \<lparr>in_sensor_id = BSEC_INPUT_GASRESISTOR, signal = float_50000_0,
          time_stamp = 1000000000\<rparr>]])"
    by (simp add: recording_def initial_state_def fmul32_1013_25)
  have fin: "is_finite float_1013_25" "is_finite float_101325_0"
    by (simp_all add: is_finite_def float_1013_25_def float_101325_0_def)
  have v: "valof float_101325_0 = valof float_1013_25 * 100"
    by (simp add: valof_constants)
  from fin(2) v have ex: "\<exists>y. is_finite y \<and> valof y = valof float_1013_25 * 100" by blast
  obtain res s' tr where run:
    "py_bsec_do_steps (recording (100, [], 0)) float_22_5 float_45_0
          float_1013_25 float_50000_0 1000000000 sentinels (initial_state []) = (res, s', tr)"
    by (rule prod_cases3)
  from pressure_times_100_in_binary32 [OF a run] fin ex
  have "engine s' =
      [[\<lparr>in_sensor_id = BSEC_INPUT_TEMPERATURE, signal = float_22_5, time_stamp = 1000000000\<rparr>,
        \<lparr>in_sensor_id = BSEC_INPUT_HUMIDITY, signal = float_45_0, time_stamp = 1000000000\<rparr>,
        \<lparr>in_sensor_id = BSEC_INPUT_PRESSURE, signal = float_101325_0,
          time_stamp = 1000000000\<rparr>,
        \<lparr>in_sensor_id = BSEC_INPUT_GASRESISTOR, signal = float_50000_0,
          time_stamp = 1000000000\<rparr>]]
     \<and> is_finite (fmul32 float_1013_25 float_100_0)
     \<and> valof (fmul32 float_1013_25 float_100_0) = valof float_1013_25 * 100"
    by blast
  with a fin v show ?thesis
    by (simp add: run)
qed

theorem pressure_times_100_not_exact:
  "is_finite float_0_1
   \<and> map (map signal)
       (steps_inputs (snd (snd (py_bsec_do_steps (answering (100, [], 0)) float_22_5 float_45_0
          float_0_1 float_50000_0 1000000000 sentinels (initial_state ()))))) =
     [[float_22_5, float_45_0, float_10_0, float_50000_0]]
   \<and> engine (fst (snd (py_bsec_do_steps (recording (100, [], 0)) float_22_5 float_45_0
          float_0_1 float_50000_0 1000000000 sentinels (initial_state [])))) =
      [[\<lparr>in_sensor_id = BSEC_INPUT_TEMPERATURE, signal = float_22_5, time_stamp = 1000000000\<rparr>,
        \<lparr>in_sensor_id = BSEC_INPUT_HUMIDITY, signal = float_45_0, time_stamp = 1000000000\<rparr>,
        \<lparr>in_sensor_id = BSEC_INPUT_PRESSURE, signal = float_10_0, time_stamp = 1000000000\<rparr>,
        \<lparr>in_sensor_id = BSEC_INPUT_GASRESISTOR, signal = float_50000_0,
          time_stamp = 1000000000\<rparr>]]
   \<and> valof float_10_0 \<noteq> valof float_0_1 * 100"
  by (simp add: py_bsec_do_steps_def answering_def recording_def initial_state_def BSEC_OK_def
      Let_def fmul32_0_1 valof_constants, simp add: is_finite_def float_0_1_def)

end
